theory Spec2Isabelle
  imports Complex_Main
begin

section \<open>The Haas NGC post processor (haasngc\_post.py)\<close>

text \<open>
  The post processor turns the commands of FreeCAD path objects into G-code text.
  It keeps its settings and two counters in module globals, which the functions
  \<open>processArguments\<close>, \<open>linenumber\<close>, \<open>parse\<close> and \<open>export\<close> read and assign.
  The model passes the globals explicitly as a record and returns the updated record.
  A Python exception is a value \<open>Inl e\<close> of the result; the globals after a raise
  are not tracked.

  Numbers: the parameters of a command are Python floats. They are modelled as
  rationals, so \<open>nan\<close> and the infinities are excluded; \<open>==\<close> is equality and
  \<open>int(x)\<close> is truncation towards zero. The calls into FreeCAD's unit library
  (\<open>Units.Quantity(v, Length).getValueAs(unit)\<close>) and Python's \<open>format(x, spec)\<close>
  are floating-point computations outside this module: the model takes them as the
  fields of a record \<open>host\<close>, each returning either a raise or a value. The
  theorems are stated for every such host; the examples are evaluated on a host that
  computes exactly. \<open>print\<close> calls are left out.
\<close>

subsection \<open>Python values and strings\<close>

datatype pyerror =
  AttributeError | IndexError | KeyError | TypeError | ValueError | SystemExit

abbreviation nl :: char where "nl \<equiv> CHR 0x0A"

text \<open>\<open>int(x)\<close> on a float: truncation towards zero.\<close>

definition pyint :: "rat \<Rightarrow> int" where
  "pyint x = (if 0 \<le> x then \<lfloor>x\<rfloor> else \<lceil>x\<rceil>)"

text \<open>\<open>str(n)\<close> on an integer: its decimal digits, with a minus sign when negative.\<close>

definition digit_char :: "nat \<Rightarrow> char" where
  "digit_char d = ''0123456789'' ! d"

function str_nat :: "nat \<Rightarrow> string" where
  "str_nat n = (if n < 10 then [digit_char n] else str_nat (n div 10) @ [digit_char (n mod 10)])"
  by pat_completeness auto
termination
  by (relation "measure (\<lambda>n. n)") auto

declare str_nat.simps [simp del]

definition str_int :: "int \<Rightarrow> string" where
  "str_int i = (if i < 0 then CHR ''-'' # str_nat (nat (- i)) else str_nat (nat i))"

text \<open>
  \<open>s.upper()\<close>, on the ASCII letters (a \<open>char\<close> is a byte); a letter outside ASCII,
  which Python also maps, stays as it is.
\<close>

definition upper_char :: "char \<Rightarrow> char" where
  "upper_char c =
    (case map_of (zip ''abcdefghijklmnopqrstuvwxyz'' ''ABCDEFGHIJKLMNOPQRSTUVWXYZ'') c of
       None \<Rightarrow> c
     | Some u \<Rightarrow> u)"

definition upper :: "string \<Rightarrow> string" where
  "upper s = map upper_char s"

text \<open>
  \<open>s.strip()\<close> removes the whitespace at both ends. The ASCII characters for which
  \<open>str.isspace\<close> holds are 9 to 13, 28 to 31 and the blank.
\<close>

definition is_space :: "char \<Rightarrow> bool" where
  "is_space c \<longleftrightarrow>
     c \<in> set [CHR 0x09, CHR 0x0A, CHR 0x0B, CHR 0x0C, CHR 0x0D, CHR 0x1C, CHR 0x1D, CHR 0x1E,
              CHR 0x1F, CHR 0x20]"

definition strip :: "string \<Rightarrow> string" where
  "strip s = rev (dropWhile is_space (rev (dropWhile is_space s)))"

text \<open>\<open>s.replace("  ", " ")\<close>: the occurrences are found from the left and do not overlap.\<close>

fun replace_double_space :: "string \<Rightarrow> string" where
  "replace_double_space (a # b # cs) =
     (if a = CHR '' '' \<and> b = CHR '' '' then CHR '' '' # replace_double_space cs
      else a # replace_double_space (b # cs))"
| "replace_double_space cs = cs"

text \<open>
  \<open>s.splitlines(keepends)\<close>. The ASCII line boundaries are line feed, carriage
  return (alone or followed by a line feed), 11, 12, 28, 29 and 30.
  The second argument holds the characters of the line read so far.
\<close>

definition is_linebreak :: "char \<Rightarrow> bool" where
  "is_linebreak c \<longleftrightarrow>
     c \<in> set [CHR 0x0A, CHR 0x0B, CHR 0x0C, CHR 0x0D, CHR 0x1C, CHR 0x1D, CHR 0x1E]"

fun splitlines_from :: "bool \<Rightarrow> string \<Rightarrow> string \<Rightarrow> string list" where
  "splitlines_from keepends cur [] = (if cur = [] then [] else [cur])"
| "splitlines_from keepends cur [c] =
     (if is_linebreak c then [if keepends then cur @ [c] else cur] else [cur @ [c]])"
| "splitlines_from keepends cur (c # d # cs) =
     (if c = CHR 0x0D \<and> d = nl
        then (if keepends then cur @ [c, d] else cur) # splitlines_from keepends [] cs
      else if is_linebreak c
        then (if keepends then cur @ [c] else cur) # splitlines_from keepends [] (d # cs)
      else splitlines_from keepends (cur @ [c]) (d # cs))"

definition splitlines :: "bool \<Rightarrow> string \<Rightarrow> string list" where
  "splitlines keepends s = splitlines_from keepends [] s"

subsection \<open>The input: commands and path objects\<close>

text \<open>
  A \<open>Path.Command\<close> has a name and a dictionary of parameters. A path object is a
  FreeCAD document object that is probed with \<open>hasattr\<close>: an attribute that may be
  missing is an option. \<open>Path\<close> holds the commands that
  \<open>PathUtils.getPathWithPlacement(obj).Commands\<close> returns; \<open>Tool\<close> holds
  \<open>obj.Tool.ShapeName\<close> and \<open>ToolController\<close> holds
  \<open>obj.ToolController.Tool.ToolType\<close>: a chain of attributes is there or missing
  as a whole. The attribute \<open>Name\<close> of an object is read only for a console message
  and a flag that is never used; it is left out.
\<close>

datatype command = Command (Name: string) (Parameters: "string \<rightharpoonup> rat")

record base_object =
  Base_Active :: "bool option"
  Base_CoolantMode :: "string option"

datatype pathobj = PathObj
  (Label: string)
  (Active: "bool option")
  (Base: "base_object option")
  (CoolantMode: "string option")
  (CycleTime: "string option")
  (Path: "command list option")
  (Tool: "string option")
  (SpindleSpeed: "rat option")
  (ToolController: "string option")
  (Group: "pathobj list option")

subsection \<open>The module globals\<close>

text \<open>
  \<open>PRECISION\<close> is the integer 3 at import, the string of the \<open>--precision\<close> option
  after \<open>processArguments\<close>, and the integer 4 with \<open>--inches\<close>; \<open>parse\<close> reads it
  through \<open>str\<close> only. \<open>now\<close> is \<open>str(datetime.datetime.now())\<close> at import.
\<close>

datatype precision = PInt int | PStr string

fun str_precision :: "precision \<Rightarrow> string" where
  "str_precision (PInt i) = str_int i"
| "str_precision (PStr s) = s"

record globals =
  OUTPUT_COMMENTS :: bool
  OUTPUT_HEADER :: bool
  OUTPUT_LINE_NUMBERS :: bool
  SHOW_EDITOR :: bool
  MODAL :: bool
  USE_TLO :: bool
  OUTPUT_DOUBLES :: bool
  LINENR :: int
  UNITS :: string
  UNIT_SPEED_FORMAT :: string
  UNIT_FORMAT :: string
  MACHINE_NAME :: string
  PRECISION :: precision
  tapSpeed :: int
  PREAMBLE :: string
  POSTAMBLE :: string
  PRE_OPERATION :: string
  POST_OPERATION :: string
  TOOL_CHANGE :: string
  now :: string

text \<open>The values the module assigns at import; the time stamp is the argument.\<close>

definition initial_globals :: "string \<Rightarrow> globals" where
  "initial_globals t =
     \<lparr> OUTPUT_COMMENTS = True, OUTPUT_HEADER = True, OUTPUT_LINE_NUMBERS = False,
       SHOW_EDITOR = True, MODAL = True, USE_TLO = True, OUTPUT_DOUBLES = False,
       LINENR = 5, UNITS = ''G21'', UNIT_SPEED_FORMAT = ''mm/min'', UNIT_FORMAT = ''mm'',
       MACHINE_NAME = ''HAASNGC'', PRECISION = PInt 3, tapSpeed = 0,
       PREAMBLE = ''G17 G54 G40 G49 G80 G90'' @ [nl],
       POSTAMBLE = ''M05'' @ [nl] @ ''G53 G0 Z0.000'' @ [nl] @ ''G53 G0 X-350.000 Y0.000'' @ [nl]
                   @ ''M30'' @ [nl],
       PRE_OPERATION = '''', POST_OPERATION = '''', TOOL_CHANGE = '''', now = t \<rparr>"

subsection \<open>processArguments\<close>

text \<open>
  The namespace that \<open>parser.parse_args\<close> returns. The parser itself (\<open>argparse\<close>
  over \<open>shlex.split\<close>) is Python's library: the model takes the outcome of
  \<open>parser.parse_args(shlex.split(argstring))\<close> as its input. It is a namespace, or
  a raise. \<open>shlex.split\<close> raises \<open>ValueError\<close> (an \<open>Exception\<close>) on an unclosed quote.
  \<open>argparse\<close> reports an unrecognised or incomplete option through
  \<open>parser.error\<close>, which calls \<open>sys.exit(2)\<close>: that raises \<open>SystemExit\<close>, which is
  a \<open>BaseException\<close> and not an \<open>Exception\<close> (the parser is built at line 53
  without \<open>exit_on_error=False\<close>).
\<close>

record args =
  no_header :: bool
  no_comments :: bool
  line_numbers :: bool
  no_show_editor :: bool
  precision :: string
  preamble :: "string option"
  postamble :: "string option"
  inches :: bool
  no_modal :: bool
  no_axis_modal :: bool
  no_tlo :: bool

datatype parse_outcome = Parsed args | Raises_Exception | Raises_SystemExit

text \<open>The assignments of the \<open>try\<close> block, in the order of the source.\<close>

definition assign_args :: "args \<Rightarrow> globals \<Rightarrow> globals" where
  "assign_args a g =
    (let g = (if no_header a then g\<lparr>OUTPUT_HEADER := False\<rparr> else g);
         g = (if no_comments a then g\<lparr>OUTPUT_COMMENTS := False\<rparr> else g);
         g = (if line_numbers a then g\<lparr>OUTPUT_LINE_NUMBERS := True\<rparr> else g);
         g = (if no_show_editor a then g\<lparr>SHOW_EDITOR := False\<rparr> else g);
         g = g\<lparr>PRECISION := PStr (precision a)\<rparr>;
         g = (case preamble a of None \<Rightarrow> g | Some p \<Rightarrow> g\<lparr>PREAMBLE := p\<rparr>);
         g = (case postamble a of None \<Rightarrow> g | Some p \<Rightarrow> g\<lparr>POSTAMBLE := p\<rparr>);
         g = (if inches a
              then g\<lparr>UNITS := ''G20'', UNIT_SPEED_FORMAT := ''in/min'', UNIT_FORMAT := ''in'',
                      PRECISION := PInt 4\<rparr>
              else g);
         g = (if no_modal a then g\<lparr>MODAL := False\<rparr> else g);
         g = (if no_tlo a then g\<lparr>USE_TLO := False\<rparr> else g);
         g = (if no_axis_modal a then g\<lparr>OUTPUT_DOUBLES := True\<rparr> else g)
     in g)"

text \<open>
  \<open>except Exception: return False\<close> catches the \<open>ValueError\<close> of \<open>shlex\<close>, raised
  before any assignment; \<open>SystemExit\<close> passes through it.
\<close>

definition processArguments :: "parse_outcome \<Rightarrow> globals \<Rightarrow> pyerror + bool \<times> globals" where
  "processArguments p g =
    (case p of
       Parsed a \<Rightarrow> Inr (True, assign_args a g)
     | Raises_Exception \<Rightarrow> Inr (False, g)
     | Raises_SystemExit \<Rightarrow> Inl SystemExit)"

subsection \<open>linenumber\<close>

definition linenumber :: "globals \<Rightarrow> string \<times> globals" where
  "linenumber g =
    (if OUTPUT_LINE_NUMBERS g
     then (''N'' @ str_int (LINENR g + 5) @ '' '', g\<lparr>LINENR := LINENR g + 5\<rparr>)
     else ('''', g))"

subsection \<open>The host: unit conversion and number formatting\<close>

text \<open>
  \<open>length_getValueAs h v unit\<close> stands for
  \<open>float(Units.Quantity(v, FreeCAD.Units.Length).getValueAs(unit))\<close>,
  \<open>velocity_getValueAs\<close> for the same with \<open>FreeCAD.Units.Velocity\<close>, and
  \<open>format_float h x spec\<close> for \<open>format(x, spec)\<close>, which raises \<open>ValueError\<close> on a
  format specification it cannot read.
\<close>

record host =
  length_getValueAs :: "rat \<Rightarrow> string \<Rightarrow> pyerror + rat"
  velocity_getValueAs :: "rat \<Rightarrow> string \<Rightarrow> pyerror + rat"
  format_float :: "rat \<Rightarrow> string \<Rightarrow> pyerror + string"

definition precision_string :: "globals \<Rightarrow> string" where
  "precision_string g = ''.'' @ str_precision (PRECISION g) @ ''f''"

text \<open>\<open>format(float(pos.getValueAs(UNIT_FORMAT)), precision_string)\<close>\<close>

definition format_length :: "host \<Rightarrow> globals \<Rightarrow> rat \<Rightarrow> pyerror + string" where
  "format_length h g v =
    (case length_getValueAs h v (UNIT_FORMAT g) of
       Inl e \<Rightarrow> Inl e
     | Inr x \<Rightarrow> format_float h x (precision_string g))"

subsection \<open>parse: the state of one call\<close>

text \<open>
  \<open>out\<close> is a string, until the \<open>message\<close> branch assigns it the empty list; from
  then on \<open>out += s\<close> appends the characters of \<open>s\<close> to the list. \<open>Chars cs\<close> is the
  list of the one-character strings of \<open>cs\<close>.
\<close>

datatype outbuf = Str string | Chars string

fun iadd :: "outbuf \<Rightarrow> string \<Rightarrow> outbuf" where
  "iadd (Str s) t = Str (s @ t)"
| "iadd (Chars cs) t = Chars (cs @ t)"

text \<open>\<open>out += parse(p)\<close>: a string and a list do not add.\<close>

fun iadd_buf :: "outbuf \<Rightarrow> outbuf \<Rightarrow> pyerror + outbuf" where
  "iadd_buf (Str s) (Str t) = Inr (Str (s @ t))"
| "iadd_buf (Str s) (Chars t) = Inl TypeError"
| "iadd_buf (Chars cs) (Str t) = Inr (Chars (cs @ t))"
| "iadd_buf (Chars cs) (Chars t) = Inr (Chars (cs @ t))"

record locals =
  out :: outbuf
  lastcommand :: "string option"
  currLocation :: "string \<rightharpoonup> rat"

definition params :: "string list" where
  "params = [''X'', ''Y'', ''Z'', ''A'', ''B'', ''C'', ''I'', ''J'', ''F'', ''S'', ''T'', ''Q'', ''R'',
             ''L'', ''H'', ''D'', ''P'']"

text \<open>The parameters of \<open>firstmove\<close>, with which \<open>currLocation\<close> starts.\<close>

definition firstmove_Parameters :: "string \<rightharpoonup> rat" where
  "firstmove_Parameters = [''X'' \<mapsto> - 1, ''Y'' \<mapsto> - 1, ''Z'' \<mapsto> - 1, ''F'' \<mapsto> 0]"

definition initial_locals :: locals where
  "initial_locals = \<lparr> out = Str [], lastcommand = None, currLocation = firstmove_Parameters \<rparr>"

subsection \<open>parse: the words of one parameter\<close>

text \<open>The last \<open>else\<close> of the loop over \<open>params\<close>: a length, unless it repeats.\<close>

definition length_word ::
  "host \<Rightarrow> globals \<Rightarrow> (string \<rightharpoonup> rat) \<Rightarrow> string \<Rightarrow> rat \<Rightarrow> pyerror + string list" where
  "length_word h g cl param v =
    (if \<not> OUTPUT_DOUBLES g \<and> cl param = Some v then Inr []
     else (case format_length h g v of
             Inl e \<Rightarrow> Inl e
           | Inr s \<Rightarrow> Inr [param @ s]))"

text \<open>The body of the \<open>F\<close> branch: no feed on a rapid move, none that is not positive.\<close>

definition feed_word :: "host \<Rightarrow> globals \<Rightarrow> command \<Rightarrow> rat \<Rightarrow> pyerror + string list" where
  "feed_word h g c v =
    (if Name c \<notin> set [''G0'', ''G00'']
     then (case velocity_getValueAs h v (UNIT_SPEED_FORMAT g) of
             Inl e \<Rightarrow> Inl e
           | Inr speed \<Rightarrow>
               if speed > 0
               then (case format_float h speed (precision_string g) of
                       Inl e \<Rightarrow> Inl e
                     | Inr s \<Rightarrow> Inr [''F'' @ s])
               else Inr [])
     else Inr [])"

text \<open>
  One round of \<open>for param in params\<close>: the words it appends to \<open>outstring\<close>. When the
  test of the \<open>F\<close> branch fails, control passes the \<open>elif\<close> chain and reaches the
  last \<open>else\<close>.
\<close>

definition param_word ::
  "host \<Rightarrow> globals \<Rightarrow> (string \<rightharpoonup> rat) \<Rightarrow> command \<Rightarrow> string \<Rightarrow> pyerror + string list" where
  "param_word h g cl c param =
    (case Parameters c param of
       None \<Rightarrow> Inr []
     | Some v \<Rightarrow>
         if param = ''F'' then
           (case cl param of
              None \<Rightarrow> Inl KeyError
            | Some old \<Rightarrow>
                if old \<noteq> v \<or> OUTPUT_DOUBLES g then feed_word h g c v
                else length_word h g cl param v)
         else if param = ''T'' then Inr [param @ str_int (pyint v)]
         else if param = ''H'' then Inr [param @ str_int (pyint v)]
         else if param = ''I'' then Inr [param @ str_int (pyint v)]
         else if param = ''J'' then Inr [param @ str_int (pyint v)]
         else if param = ''D'' then Inr [param @ str_int (pyint v)]
         else if param = ''S'' then Inr [param @ str_int (pyint v)]
         else length_word h g cl param v)"

fun parse_params ::
  "host \<Rightarrow> globals \<Rightarrow> (string \<rightharpoonup> rat) \<Rightarrow> command \<Rightarrow> string list \<Rightarrow> string list
     \<Rightarrow> pyerror + string list" where
  "parse_params h g cl c [] outstring = Inr outstring"
| "parse_params h g cl c (param # ps) outstring =
    (case param_word h g cl c param of
       Inl e \<Rightarrow> Inl e
     | Inr ws \<Rightarrow> parse_params h g cl c ps (outstring @ ws))"

subsection \<open>parse: the rigid tapping cycle\<close>

text \<open>
  The loops over \<open>["X", "Y"]\<close> and over \<open>["Z", "R"]\<close> have the same body; the
  loop over \<open>["F", "P", "Q"]\<close> has no test for a repeated value. Each appends to
  \<open>paramstring\<close>, which the source sets to the empty string once, before the first
  loop.
\<close>

fun tap_axis_params ::
  "host \<Rightarrow> globals \<Rightarrow> (string \<rightharpoonup> rat) \<Rightarrow> command \<Rightarrow> string list \<Rightarrow> string
     \<Rightarrow> pyerror + string" where
  "tap_axis_params h g cl c [] paramstring = Inr paramstring"
| "tap_axis_params h g cl c (param # ps) paramstring =
    (case Parameters c param of
       None \<Rightarrow> tap_axis_params h g cl c ps paramstring
     | Some v \<Rightarrow>
         if \<not> OUTPUT_DOUBLES g \<and> cl param = Some v
         then tap_axis_params h g cl c ps paramstring
         else (case format_length h g v of
                 Inl e \<Rightarrow> Inl e
               | Inr s \<Rightarrow> tap_axis_params h g cl c ps (paramstring @ '' '' @ param @ s)))"

fun tap_pitch_params ::
  "host \<Rightarrow> globals \<Rightarrow> command \<Rightarrow> string list \<Rightarrow> string \<Rightarrow> pyerror + string" where
  "tap_pitch_params h g c [] paramstring = Inr paramstring"
| "tap_pitch_params h g c (param # ps) paramstring =
    (case Parameters c param of
       None \<Rightarrow> tap_pitch_params h g c ps paramstring
     | Some v \<Rightarrow>
         (case format_length h g v of
            Inl e \<Rightarrow> Inl e
          | Inr s \<Rightarrow> tap_pitch_params h g c ps (paramstring @ '' '' @ param @ s)))"

text \<open>
  Lines 484 to 548. The line \<open>M29\<close> is added without a call of \<open>linenumber\<close>.
  Neither \<open>lastcommand\<close> nor \<open>currLocation\<close> is assigned.
\<close>

definition tap_cycle :: "host \<Rightarrow> command \<Rightarrow> locals \<times> globals \<Rightarrow> pyerror + locals \<times> globals" where
  "tap_cycle h c s =
    (case s of (l, g) \<Rightarrow>
      (case linenumber g of (n1, g) \<Rightarrow>
        let out1 = iadd (out l) (n1 @ ''G95'' @ [nl]) in
        (case tap_axis_params h g (currLocation l) c [''X'', ''Y''] [] of
           Inl e \<Rightarrow> Inl e
         | Inr xy \<Rightarrow>
            (case (if xy \<noteq> [] then (case linenumber g of (n2, g2) \<Rightarrow>
                                      (iadd out1 (n2 @ ''G00'' @ xy @ [nl]), g2))
                   else (out1, g)) of (out2, g) \<Rightarrow>
              let g = (case Parameters c ''S'' of
                         None \<Rightarrow> g
                       | Some sp \<Rightarrow> g\<lparr>tapSpeed := pyint sp\<rparr>);
                  out3 = iadd out2 (''M29 S'' @ str_int (tapSpeed g) @ [nl]) in
              (case tap_axis_params h g (currLocation l) c [''Z'', ''R''] xy of
                 Inl e \<Rightarrow> Inl e
               | Inr xyzr \<Rightarrow>
                  (case tap_pitch_params h g c [''F'', ''P'', ''Q''] xyzr of
                     Inl e \<Rightarrow> Inl e
                   | Inr paramstring \<Rightarrow>
                      (case linenumber g of (n4, g) \<Rightarrow>
                       case linenumber g of (n5, g5) \<Rightarrow>
                       case linenumber g5 of (n6, g6) \<Rightarrow>
                         Inr (l\<lparr>out := iadd (iadd (iadd out3 (n4 @ ''G84'' @ paramstring @ [nl]))
                                                  (n5 @ ''G80'' @ [nl]))
                                            (n6 @ ''G94'' @ [nl])\<rparr>, g6))))))))"

subsection \<open>parse: the tool change\<close>

text \<open>\<open>for line in lines: gcode += linenumber() + line\<close>, as the text that is added.\<close>

fun numbered_lines :: "string list \<Rightarrow> globals \<Rightarrow> string \<times> globals" where
  "numbered_lines [] g = ([], g)"
| "numbered_lines (line # ls) g =
    (case linenumber g of (n, g1) \<Rightarrow>
     case numbered_lines ls g1 of (rest, g2) \<Rightarrow> (n @ line @ rest, g2))"

text \<open>Lines 615 to 626. \<open>linenumber()\<close> is called before \<open>c.Parameters["T"]\<close> is read.\<close>

definition tool_change :: "command \<Rightarrow> locals \<times> globals \<Rightarrow> pyerror + locals \<times> globals" where
  "tool_change c s =
    (case s of (l, g) \<Rightarrow>
     case linenumber g of (n1, g) \<Rightarrow>
     case numbered_lines (splitlines True (TOOL_CHANGE g)) g of (tc, g) \<Rightarrow>
     case linenumber g of (n2, g) \<Rightarrow>
      (case Parameters c ''T'' of
         None \<Rightarrow> Inl KeyError
       | Some t \<Rightarrow>
          let out2 = iadd (iadd (iadd (out l) (n1 @ ''M5'' @ [nl])) tc)
                          (n2 @ ''M6 T'' @ str_int (pyint t) @ [nl]) in
          if USE_TLO g
          then (case linenumber g of (n3, g3) \<Rightarrow>
                  Inr (l\<lparr>out := iadd out2 (n3 @ ''G43 H'' @ str_int (pyint t) @ [nl])\<rparr>, g3))
          else Inr (l\<lparr>out := out2\<rparr>, g)))"

subsection \<open>parse: one line of output\<close>

text \<open>\<open>for w in outstring: out += w.upper() + COMMAND_SPACE\<close>\<close>

fun iadd_words :: "outbuf \<Rightarrow> string list \<Rightarrow> outbuf" where
  "iadd_words b [] = b"
| "iadd_words b (w # ws) = iadd_words (iadd b (upper w @ '' '')) ws"

text \<open>
  Lines 635 to 643. \<open>strip\<close> and \<open>replace\<close> are methods of a string: on the list
  that \<open>out\<close> may hold they raise \<open>AttributeError\<close>. Both act on all of \<open>out\<close>.
\<close>

definition emit_line :: "string list \<Rightarrow> locals \<times> globals \<Rightarrow> pyerror + locals \<times> globals" where
  "emit_line outstring s =
    (case s of (l, g) \<Rightarrow>
      (case outstring of
         [] \<Rightarrow> Inr (l, g)
       | w # ws \<Rightarrow>
          (case (if OUTPUT_LINE_NUMBERS g
                 then (case w of
                         [] \<Rightarrow> Inl IndexError
                       | ch # _ \<Rightarrow>
                           if ch \<noteq> CHR ''(''
                           then (case linenumber g of (n, g1) \<Rightarrow> Inr (n # outstring, g1))
                           else Inr (outstring, g))
                 else Inr (outstring, g)) of
             Inl e \<Rightarrow> Inl e
           | Inr (outstring, g) \<Rightarrow>
               (case iadd_words (out l) outstring of
                  Chars cs \<Rightarrow> Inl AttributeError
                | Str t \<Rightarrow> Inr (l\<lparr>out := Str (replace_double_space (strip t @ [nl]))\<rparr>, g)))))"

text \<open>
  Lines 614 to 644, after \<open>lastcommand\<close> and \<open>currLocation\<close> are stored: the tool
  change, the \<open>message\<close> branch, and the line that is added to \<open>out\<close>.
\<close>

definition finish_command ::
  "command \<Rightarrow> string list \<Rightarrow> locals \<times> globals \<Rightarrow> pyerror + locals \<times> globals" where
  "finish_command c outstring s =
    (case s of (l, g) \<Rightarrow>
      if Name c = ''M6'' then tool_change c (l, g)
      else if Name c = ''message'' then
        (if \<not> OUTPUT_COMMENTS g then emit_line outstring (l\<lparr>out := Chars []\<rparr>, g)
         else (case outstring of
                 [] \<Rightarrow> Inl IndexError
               | w # ws \<Rightarrow> emit_line ws (l, g)))
      else emit_line outstring (l, g))"

text \<open>
  Lines 550 to 612: a command that is neither skipped nor a tapping cycle. The
  argument \<open>nextcommand\<close> is the name of the command that follows, or the empty
  string. \<open>c.Name[0]\<close> raises \<open>IndexError\<close> on an empty name.
\<close>

definition generic_command ::
  "host \<Rightarrow> string \<Rightarrow> command \<Rightarrow> locals \<times> globals \<Rightarrow> pyerror + locals \<times> globals" where
  "generic_command h nextcommand c s =
    (case s of (l, g) \<Rightarrow>
      let command = Name c;
          outstring = (if MODAL g \<and> lastcommand l = Some command then [] else [command]) in
      if command = ''G80'' \<and> lastcommand l = Some nextcommand then Inr (l, g)
      else (case Name c of
              [] \<Rightarrow> Inl IndexError
            | ch # _ \<Rightarrow>
               if ch = CHR ''('' \<and> \<not> OUTPUT_COMMENTS g then Inr (l, g)
               else (case parse_params h g (currLocation l) c params outstring of
                       Inl e \<Rightarrow> Inl e
                     | Inr outstring \<Rightarrow>
                        finish_command c outstring
                          (l\<lparr>lastcommand := Some command,
                             currLocation := currLocation l ++ Parameters c\<rparr>, g))))"

subsection \<open>parse: the loop over the commands\<close>

text \<open>
  The three tests at the head of the loop body, lines 468 to 483, each ending in
  \<open>continue\<close>. The spindle start reads \<open>pathobj.Tool.ShapeName\<close>; the drilling
  cycle reads \<open>pathobj.ToolController.Tool.ToolType\<close>.
\<close>

definition parse_command ::
  "host \<Rightarrow> pathobj \<Rightarrow> string \<Rightarrow> command \<Rightarrow> locals \<times> globals \<Rightarrow> pyerror + locals \<times> globals" where
  "parse_command h pathobj nextcommand c s =
    (case s of (l, g) \<Rightarrow>
      let command = Name c in
      if Label pathobj = ''Fixture'' \<and> command = ''G0'' then Inr (l, g)
      else if command = ''M03'' \<or> command = ''M3'' then
        (case Tool pathobj of
           None \<Rightarrow> Inl AttributeError
         | Some shape \<Rightarrow>
            if shape = ''tap''
            then (case SpindleSpeed pathobj of
                    None \<Rightarrow> Inl AttributeError
                  | Some sp \<Rightarrow> Inr (l, g\<lparr>tapSpeed := pyint sp\<rparr>))
            else generic_command h nextcommand c (l, g))
      else if (command = ''G81'' \<or> command = ''G83'') \<and> ToolController pathobj = Some ''Tap''
        then tap_cycle h c (l, g)
      else generic_command h nextcommand c (l, g))"

fun parse_commands ::
  "host \<Rightarrow> pathobj \<Rightarrow> command list \<Rightarrow> locals \<times> globals \<Rightarrow> pyerror + locals \<times> globals" where
  "parse_commands h pathobj [] s = Inr s"
| "parse_commands h pathobj (c # cs) s =
    (case parse_command h pathobj (case cs of [] \<Rightarrow> [] | c' # _ \<Rightarrow> Name c') c s of
       Inl e \<Rightarrow> Inl e
     | Inr s' \<Rightarrow> parse_commands h pathobj cs s')"

text \<open>The \<open>else\<close> branch of \<open>parse\<close>: an object without \<open>Group\<close>.\<close>

definition parse_leaf :: "host \<Rightarrow> pathobj \<Rightarrow> globals \<Rightarrow> pyerror + outbuf \<times> globals" where
  "parse_leaf h pathobj g =
    (case Path pathobj of
       None \<Rightarrow> Inr (Str [], g)
     | Some commands \<Rightarrow>
        (case parse_commands h pathobj commands (initial_locals, g) of
           Inl e \<Rightarrow> Inl e
         | Inr (l, g') \<Rightarrow> Inr (out l, g')))"

text \<open>
  \<open>parse\<close> calls itself on the members of a \<open>Group\<close>; \<open>parse_group\<close> is the loop
  \<open>for p in pathobj.Group: out += parse(p)\<close>.
\<close>

fun parse :: "host \<Rightarrow> pathobj \<Rightarrow> globals \<Rightarrow> pyerror + outbuf \<times> globals"
and parse_group :: "host \<Rightarrow> pathobj list \<Rightarrow> outbuf \<Rightarrow> globals \<Rightarrow> pyerror + outbuf \<times> globals"
where
  "parse h (PathObj lb ac bs cm ct pa to sp tc (Some ps)) g = parse_group h ps (Str []) g"
| "parse h (PathObj lb ac bs cm ct pa to sp tc None) g =
     parse_leaf h (PathObj lb ac bs cm ct pa to sp tc None) g"
| "parse_group h [] b g = Inr (b, g)"
| "parse_group h (p # ps) b g =
    (case parse h p g of
       Inl e \<Rightarrow> Inl e
     | Inr (r, g1) \<Rightarrow>
        (case iadd_buf b r of
           Inl e \<Rightarrow> Inl e
         | Inr b1 \<Rightarrow> parse_group h ps b1 g1))"

subsection \<open>export\<close>

text \<open>
  The body of the loop over \<open>objectslist\<close> after the two tests for an inactive
  operation, lines 300 to 341, in three parts. \<open>gcode\<close> is a string throughout;
  adding the list that \<open>parse\<close> may return raises \<open>TypeError\<close>. First the coolant
  mode, lines 312 to 317: the attribute of the object, else that of its \<open>Base\<close>, else
  \<open>"None"\<close>.
\<close>

definition coolant_mode :: "pathobj \<Rightarrow> string" where
  "coolant_mode obj =
    (case CoolantMode obj of
       Some m \<Rightarrow> m
     | None \<Rightarrow>
        (case Base obj of
           None \<Rightarrow> ''None''
         | Some b \<Rightarrow> (case Base_CoolantMode b of None \<Rightarrow> ''None'' | Some m \<Rightarrow> m)))"

text \<open>Lines 300 to 326: the comments, the text before the operation, the coolant.\<close>

definition begin_operation :: "pathobj \<Rightarrow> string \<times> globals \<Rightarrow> string \<times> globals" where
  "begin_operation obj s =
    (case s of (gcode, g) \<Rightarrow>
      let gcode = (if OUTPUT_COMMENTS g
                   then gcode @ ''(BEGIN OPERATION: '' @ upper (Label obj) @ '')'' @ [nl]
                        @ (case CycleTime obj of
                             None \<Rightarrow> []
                           | Some t \<Rightarrow> ''(CYCLE TIME: '' @ t @ '')'' @ [nl])
                   else gcode) in
      case numbered_lines (splitlines True (PRE_OPERATION g)) g of (pre, g) \<Rightarrow>
      let gcode = gcode @ pre;
          coolantMode = coolant_mode obj;
          gcode = (if OUTPUT_COMMENTS g \<and> coolantMode \<noteq> ''None''
                   then gcode @ ''(COOLANT ON:'' @ upper coolantMode @ '')'' @ [nl]
                   else gcode) in
      case (if coolantMode = ''Flood''
            then (case linenumber g of (n, g1) \<Rightarrow> (gcode @ n @ ''M8'' @ [nl], g1))
            else (gcode, g)) of (gcode, g) \<Rightarrow>
      if coolantMode = ''Mist''
      then (case linenumber g of (n, g1) \<Rightarrow> (gcode @ n @ ''M7'' @ [nl], g1))
      else (gcode, g))"

text \<open>Lines 331 to 341: the comment, the text after the operation, the coolant.\<close>

definition end_operation :: "pathobj \<Rightarrow> string \<times> globals \<Rightarrow> string \<times> globals" where
  "end_operation obj s =
    (case s of (gcode, g) \<Rightarrow>
      let coolantMode = coolant_mode obj;
          gcode = (if OUTPUT_COMMENTS g
                   then gcode @ ''(FINISH OPERATION: '' @ upper (Label obj) @ '')'' @ [nl]
                   else gcode) in
      case numbered_lines (splitlines True (POST_OPERATION g)) g of (post, g) \<Rightarrow>
      let gcode = gcode @ post in
      if coolantMode \<noteq> ''None''
      then (let gcode = (if OUTPUT_COMMENTS g
                         then gcode @ ''(COOLANT OFF:'' @ upper coolantMode @ '')'' @ [nl]
                         else gcode) in
            case linenumber g of (n, g1) \<Rightarrow> (gcode @ n @ ''M9'' @ [nl], g1))
      else (gcode, g))"

text \<open>
  The body of the loop for one operation, with \<open>gcode += parse(obj)\<close> at line 329
  in the middle.
\<close>

definition export_operation ::
  "host \<Rightarrow> pathobj \<Rightarrow> string \<times> globals \<Rightarrow> pyerror + string \<times> globals" where
  "export_operation h obj s =
    (case begin_operation obj s of (gcode, g) \<Rightarrow>
      (case parse h obj g of
         Inl e \<Rightarrow> Inl e
       | Inr (Chars cs, g) \<Rightarrow> Inl TypeError
       | Inr (Str t, g) \<Rightarrow> Inr (end_operation obj (gcode @ t, g))))"

text \<open>
  The loop over \<open>objectslist\<close>, lines 290 to 341, with its two \<open>continue\<close>
  statements for an inactive operation.
\<close>

fun export_objects ::
  "host \<Rightarrow> pathobj list \<Rightarrow> string \<times> globals \<Rightarrow> pyerror + string \<times> globals" where
  "export_objects h [] s = Inr s"
| "export_objects h (obj # objs) s =
    (if Active obj = Some False then export_objects h objs s
     else if (case Base obj of None \<Rightarrow> False | Some b \<Rightarrow> Base_Active b = Some False)
       then export_objects h objs s
     else (case export_operation h obj s of
             Inl e \<Rightarrow> Inl e
           | Inr s' \<Rightarrow> export_objects h objs s'))"

text \<open>
  What a call of \<open>export\<close> hands back: the value it returns (\<open>None\<close> or the text)
  and the file it writes, if any, as the pair of the name and the content.
\<close>

record export_result =
  returned :: "string option"
  written :: "(string \<times> string) option"

text \<open>The header and the preamble, lines 272 to 286.\<close>

definition export_head :: "globals \<Rightarrow> string \<times> globals" where
  "export_head g =
    (let gcode = (if OUTPUT_HEADER g
                  then ''%'' @ [nl] @ ''O'' @ [nl] @ ''(EXPORTED BY FREECAD!)'' @ [nl]
                       @ ''(POST PROCESSOR: '' @ MACHINE_NAME g @ '')'' @ [nl]
                       @ ''(OUTPUT TIME: '' @ upper (now g) @ '')'' @ [nl]
                  else []);
         gcode = (if OUTPUT_COMMENTS g then gcode @ ''(BEGIN PREAMBLE)'' @ [nl] else gcode) in
     case numbered_lines (map (\<lambda>line. line @ [nl]) (splitlines False (PREAMBLE g))) g
       of (pre, g) \<Rightarrow>
     case linenumber g of (n, g) \<Rightarrow> (gcode @ pre @ n @ UNITS g @ [nl], g))"

text \<open>The postamble, lines 344 to 348.\<close>

definition export_tail :: "string \<times> globals \<Rightarrow> string \<times> globals" where
  "export_tail s =
    (case s of (gcode, g) \<Rightarrow>
      let gcode = (if OUTPUT_COMMENTS g then gcode @ ''(BEGIN POSTAMBLE)'' @ [nl] else gcode) in
      case numbered_lines (splitlines True (POSTAMBLE g)) g of (post, g) \<Rightarrow>
        (gcode @ post @ ''%'' @ [nl], g))"

text \<open>
  \<open>export\<close>. The argument \<open>editor\<close> is \<open>None\<close> when \<open>FreeCAD.GuiUp\<close> is false;
  otherwise it maps the text shown in the dialog to the text of the editor when the
  user accepts, and to \<open>None\<close> when the user cancels. \<open>print(objectslist[0].Label)\<close>
  raises \<open>IndexError\<close> on an empty list.
\<close>

definition export ::
  "host \<Rightarrow> (string \<Rightarrow> string option) option \<Rightarrow> pathobj list \<Rightarrow> string \<Rightarrow> parse_outcome
     \<Rightarrow> globals \<Rightarrow> pyerror + export_result \<times> globals" where
  "export h editor objectslist filename argstring g =
    (case processArguments argstring g of
       Inl e \<Rightarrow> Inl e
     | Inr (ok, g) \<Rightarrow>
        if \<not> ok then Inr (\<lparr>returned = None, written = None\<rparr>, g)
        else if list_ex (\<lambda>obj. Path obj = None) objectslist
          then Inr (\<lparr>returned = None, written = None\<rparr>, g)
        else if objectslist = [] then Inl IndexError
        else (case export_objects h objectslist (export_head g) of
                Inl e \<Rightarrow> Inl e
              | Inr s \<Rightarrow>
                 (case export_tail s of (gcode, g) \<Rightarrow>
                   let final = (case editor of
                                  None \<Rightarrow> gcode
                                | Some dialog \<Rightarrow>
                                    if SHOW_EDITOR g
                                    then (case dialog gcode of None \<Rightarrow> gcode | Some t \<Rightarrow> t)
                                    else gcode) in
                   Inr (\<lparr>returned = Some final,
                         written = (if filename \<noteq> ''-'' then Some (filename, final) else None)\<rparr>,
                        g))))"


subsection \<open>A host with exact arithmetic\<close>

text \<open>
  An instance of the host for evaluating the definitions on examples: the unit
  conversions and the rounding of \<open>format\<close> are computed on the rationals, where
  FreeCAD and Python compute on doubles. Lengths are kept in millimetres and
  velocities in millimetres per second. \<open>format\<close> reads the specifications
  \<open>.Nf\<close> with \<open>N\<close> in decimal digits, rounds to \<open>N\<close> places, a tie to the even
  digit, and raises \<open>ValueError\<close> on any other, also on those with a fill, a sign
  or a width, which Python accepts. The rationals have no negative zero: the double
  \<open>-0.0\<close>, which Python writes with its sign, has no counterpart here.
\<close>

definition exact_length :: "rat \<Rightarrow> string \<Rightarrow> pyerror + rat" where
  "exact_length v unit =
    (if unit = ''mm'' then Inr v
     else if unit = ''in'' then Inr (v / (254 / 10))
     else Inl ValueError)"

definition exact_velocity :: "rat \<Rightarrow> string \<Rightarrow> pyerror + rat" where
  "exact_velocity v unit =
    (if unit = ''mm/min'' then Inr (v * 60)
     else if unit = ''in/min'' then Inr (v * 60 / (254 / 10))
     else Inl ValueError)"

definition is_digit :: "char \<Rightarrow> bool" where
  "is_digit c \<longleftrightarrow> c \<in> set ''0123456789''"

definition digit_value :: "char \<Rightarrow> nat" where
  "digit_value c = length (takeWhile (\<lambda>d. d \<noteq> c) ''0123456789'')"

fun digits_value :: "nat \<Rightarrow> string \<Rightarrow> nat" where
  "digits_value acc [] = acc"
| "digits_value acc (c # cs) = digits_value (10 * acc + digit_value c) cs"

definition round_half_even :: "rat \<Rightarrow> int" where
  "round_half_even y =
    (let f = \<lfloor>y\<rfloor>; r = y - of_int f in
     if r < 1 / 2 then f else if 1 / 2 < r then f + 1 else if even f then f else f + 1)"

text \<open>The digits of \<open>n\<close>, filled with zeros on the left to the width \<open>w\<close>.\<close>

definition zero_fill :: "nat \<Rightarrow> string \<Rightarrow> string" where
  "zero_fill w s = replicate (w - length s) (CHR ''0'') @ s"

definition fixed :: "nat \<Rightarrow> rat \<Rightarrow> string" where
  "fixed d x =
    (let n = nat (round_half_even (\<bar>x\<bar> * 10 ^ d));
         whole = str_nat (n div 10 ^ d);
         body = (if d = 0 then whole else whole @ ''.'' @ zero_fill d (str_nat (n mod 10 ^ d))) in
     if x < 0 then CHR ''-'' # body else body)"

definition exact_format :: "rat \<Rightarrow> string \<Rightarrow> pyerror + string" where
  "exact_format x spec =
    (case spec of
       [] \<Rightarrow> Inl ValueError
     | dot # rest \<Rightarrow>
        (case rev rest of
           [] \<Rightarrow> Inl ValueError
         | f # ds \<Rightarrow>
            if dot = CHR ''.'' \<and> f = CHR ''f'' \<and> ds \<noteq> [] \<and> list_all is_digit ds
            then Inr (fixed (digits_value 0 (rev ds)) x)
            else Inl ValueError))"

definition exact_host :: host where
  "exact_host = \<lparr> length_getValueAs = exact_length, velocity_getValueAs = exact_velocity,
                  format_float = exact_format \<rparr>"

subsection \<open>Inputs for the examples\<close>

text \<open>
  The namespace of the empty argument string: every flag is off and \<open>precision\<close> has
  its default \<open>"3"\<close>.
\<close>

definition default_args :: args where
  "default_args =
     \<lparr> no_header = False, no_comments = False, line_numbers = False, no_show_editor = False,
       precision = ''3'', preamble = None, postamble = None, inches = False, no_modal = False,
       no_axis_modal = False, no_tlo = False \<rparr>"

text \<open>The globals at import, with a fixed time stamp.\<close>

definition example_globals :: globals where
  "example_globals = initial_globals ''2024-01-01 10:00:00''"

text \<open>An operation with a label and commands, and no other attribute that may be missing.\<close>

definition operation :: "string \<Rightarrow> command list \<Rightarrow> pathobj" where
  "operation lb cs = PathObj lb None None None None (Some cs) None None None None"

text \<open>An inactive pocket operation, a job that holds it in its group, and the job with an empty group.\<close>

definition inactive_pocket :: pathobj where
  "inactive_pocket =
     PathObj ''Pocket'' (Some False) None None None (Some [Command ''G1'' [''X'' \<mapsto> 5]])
       None None None None"

definition job_with_inactive_pocket :: pathobj where
  "job_with_inactive_pocket =
     PathObj ''Job'' None None None None (Some []) None None None (Some [inactive_pocket])"

definition job_without_pocket :: pathobj where
  "job_without_pocket = PathObj ''Job'' None None None None (Some []) None None None (Some [])"


definition numbered_args :: args where
  "numbered_args = default_args\<lparr>no_header := True, no_comments := True, line_numbers := True\<rparr>"


text \<open>A linear move, and the variables of \<open>parse\<close> after it as the first command of a leaf.\<close>

definition linear_move :: command where
  "linear_move = Command ''G1'' [''X'' \<mapsto> 10, ''Y'' \<mapsto> 20]"

definition after_linear_move :: locals where
  "after_linear_move =
     \<lparr> out = Str (''G1 X10.000 Y20.000'' @ [nl]), lastcommand = Some ''G1'',
       currLocation = firstmove_Parameters ++ [''X'' \<mapsto> 10, ''Y'' \<mapsto> 20] \<rparr>"

text \<open>An arc with its centre offsets.\<close>

definition arc :: command where
  "arc = Command ''G2'' [''X'' \<mapsto> 1, ''Y'' \<mapsto> 1, ''I'' \<mapsto> 5, ''J'' \<mapsto> 0]"

text \<open>
  A tapping operation: the spindle start, then a drilling cycle. The tool has the
  shape \<open>tap\<close>, the tool of the tool controller the type \<open>Tap\<close>, and the spindle
  speed of the operation is 500.
\<close>

definition tap_operation :: pathobj where
  "tap_operation =
     PathObj ''Tap M6'' None None None None
       (Some [Command ''M3'' [''S'' \<mapsto> 500],
              Command ''G81'' [''X'' \<mapsto> 10, ''Y'' \<mapsto> 20, ''Z'' \<mapsto> - 10, ''R'' \<mapsto> 2, ''F'' \<mapsto> 3 / 2]])
       (Some ''tap'') (Some 500) (Some ''Tap'') None"

text \<open>An operation of one \<open>message\<close> command.\<close>

definition message_operation :: pathobj where
  "message_operation = operation ''Op'' [Command ''message'' Map.empty]"

subsection \<open>Notions for the statements\<close>

text \<open>
  The prefix that the \<open>k\<close>-th call of \<open>linenumber\<close> from the globals \<open>g\<close> returns, and
  the globals after \<open>k\<close> calls. With numbering off the prefix is empty and the
  globals stay as they are.
\<close>

definition line_prefix :: "globals \<Rightarrow> int \<Rightarrow> string" where
  "line_prefix g k = (if OUTPUT_LINE_NUMBERS g then ''N'' @ str_int (LINENR g + 5 * k) @ '' '' else [])"

definition advance :: "globals \<Rightarrow> int \<Rightarrow> globals" where
  "advance g k = (if OUTPUT_LINE_NUMBERS g then g\<lparr>LINENR := LINENR g + 5 * k\<rparr> else g)"

text \<open>The command \<open>c\<close> with the parameter \<open>p\<close> taken out of its dictionary.\<close>

definition without :: "command \<Rightarrow> string \<Rightarrow> command" where
  "without c p = Command (Name c) ((Parameters c)(p := None))"

text \<open>
  The spindle speed of the line \<open>M29\<close>: the \<open>S\<close> of the command when it has one, else
  the speed that is carried in \<open>tapSpeed\<close>.
\<close>

definition tap_speed :: "command \<Rightarrow> globals \<Rightarrow> int" where
  "tap_speed c g = (case Parameters c ''S'' of None \<Rightarrow> tapSpeed g | Some sp \<Rightarrow> pyint sp)"

text \<open>
  The text that the tapping cycle adds, from the text \<open>xy\<close> of the first loop and
  the \<open>paramstring\<close> after the last.
\<close>

definition tap_text :: "command \<Rightarrow> globals \<Rightarrow> string \<Rightarrow> string \<Rightarrow> string" where
  "tap_text c g xy paramstring =
     line_prefix g 1 @ ''G95'' @ [nl]
     @ (if xy \<noteq> [] then line_prefix g 2 @ ''G00'' @ xy @ [nl] else [])
     @ ''M29 S'' @ str_int (tap_speed c g) @ [nl]
     @ line_prefix g (if xy \<noteq> [] then 3 else 2) @ ''G84'' @ paramstring @ [nl]
     @ line_prefix g (if xy \<noteq> [] then 4 else 3) @ ''G80'' @ [nl]
     @ line_prefix g (if xy \<noteq> [] then 5 else 4) @ ''G94'' @ [nl]"

text \<open>
  An operation that the loop of \<open>export\<close> passes over: \<open>Active\<close> is there and false,
  or \<open>Base\<close> is there with an \<open>Active\<close> that is false.
\<close>

definition inactive :: "pathobj \<Rightarrow> bool" where
  "inactive obj \<longleftrightarrow>
     Active obj = Some False
     \<or> (case Base obj of None \<Rightarrow> False | Some b \<Rightarrow> Base_Active b = Some False)"

text \<open>
  The words of the parameters that are written as integers, in the order of \<open>params\<close>;
  the loop over \<open>params\<close> never suppresses them.
\<close>

definition integer_words :: "command \<Rightarrow> string list" where
  "integer_words c =
     concat (map (\<lambda>p. case Parameters c p of None \<Rightarrow> [] | Some v \<Rightarrow> [p @ str_int (pyint v)])
               [''I'', ''J'', ''S'', ''T'', ''H'', ''D''])"

text \<open>
  The globals without the two counters, and the relation between the globals before
  and after a call that assigns nothing else, and not the line number either when
  numbering is off.
\<close>

definition settings :: "globals \<Rightarrow> globals" where
  "settings g = g\<lparr>LINENR := 0, tapSpeed := 0\<rparr>"

definition keeps_settings :: "globals \<Rightarrow> globals \<Rightarrow> bool" where
  "keeps_settings g g' \<longleftrightarrow>
     settings g' = settings g \<and> (OUTPUT_LINE_NUMBERS g \<or> LINENR g' = LINENR g)"


section \<open>Properties\<close>

subsection \<open>Evaluation\<close>

lemma str_nat_digit: "n < 10 \<Longrightarrow> str_nat n = [digit_char n]"
  by (simp add: str_nat.simps)

lemma str_int_4: "str_int 4 = ''4''"
  by (simp add: str_int_def str_nat.simps digit_char_def)

text \<open>The equations that evaluate the exact host and the example inputs.\<close>

lemmas evaluation =
  exact_host_def example_globals_def initial_globals_def initial_locals_def
  firstmove_Parameters_def format_length_def exact_length_def exact_velocity_def exact_format_def
  precision_string_def str_int_def str_nat.simps digit_char_def fixed_def round_half_even_def
  is_digit_def digit_value_def zero_fill_def pyint_def

text \<open>The equations that unfold the model on a concrete input.\<close>

lemmas model_equations =
  export_def export_head_def export_tail_def export_operation_def begin_operation_def
  end_operation_def coolant_mode_def
  processArguments_def assign_args_def default_args_def linenumber_def splitlines_def
  is_linebreak_def upper_def upper_char_def strip_def is_space_def parse_leaf_def
  parse_command_def generic_command_def finish_command_def tap_cycle_def tool_change_def emit_line_def
  params_def param_word_def length_word_def feed_word_def operation_def Let_def

subsection \<open>processArguments\<close>

text \<open>
  C9. When the namespace has \<open>inches\<close> set, \<open>processArguments\<close> succeeds and leaves
  the units \<open>G20\<close>, the length unit \<open>in\<close>, the speed unit \<open>in/min\<close> and the precision
  4, whatever the \<open>--precision\<close> option holds: the assignment \<open>PRECISION = 4\<close> comes
  after \<open>PRECISION = args.precision\<close>. The format specification that \<open>parse\<close> builds
  is then \<open>.4f\<close>.
\<close>

theorem imperial_forces_precision_4:
  assumes "inches a"
  shows "processArguments (Parsed a) g = Inr (True, assign_args a g)
       \<and> UNITS (assign_args a g) = ''G20''
       \<and> UNIT_FORMAT (assign_args a g) = ''in''
       \<and> UNIT_SPEED_FORMAT (assign_args a g) = ''in/min''
       \<and> PRECISION (assign_args a g) = PInt 4
       \<and> precision_string (assign_args a g) = ''.4f''"
  using assms
  by (simp add: processArguments_def assign_args_def precision_string_def str_int_4 Let_def
           split: option.split)

theorem imperial_forces_precision_4_witness:
  "inches (default_args\<lparr>inches := True, precision := ''7''\<rparr>)
   \<and> PRECISION (assign_args (default_args\<lparr>inches := True, precision := ''7''\<rparr>) example_globals)
       = PInt 4
   \<and> precision_string (assign_args (default_args\<lparr>inches := True, precision := ''7''\<rparr>)
        example_globals) = ''.4f''"
  using imperial_forces_precision_4 [of "default_args\<lparr>inches := True, precision := ''7''\<rparr>"
          example_globals]
  by (simp add: default_args_def)

subsection \<open>Line numbers\<close>

lemma linenumber_advance:
  "linenumber (advance g k) = (line_prefix g (k + 1), advance g (k + 1))"
  by (simp add: linenumber_def advance_def line_prefix_def algebra_simps)

lemma linenumber_first: "linenumber g = (line_prefix g 1, advance g 1)"
  by (simp add: linenumber_def advance_def line_prefix_def)

lemma advance_fields [simp]:
  "OUTPUT_LINE_NUMBERS (advance g k) = OUTPUT_LINE_NUMBERS g"
  "OUTPUT_COMMENTS (advance g k) = OUTPUT_COMMENTS g"
  "OUTPUT_DOUBLES (advance g k) = OUTPUT_DOUBLES g"
  "MODAL (advance g k) = MODAL g"
  "USE_TLO (advance g k) = USE_TLO g"
  "TOOL_CHANGE (advance g k) = TOOL_CHANGE g"
  "tapSpeed (advance g k) = tapSpeed g"
  "UNIT_FORMAT (advance g k) = UNIT_FORMAT g"
  "PRECISION (advance g k) = PRECISION g"
  by (simp_all add: advance_def)

lemma advance_advance: "advance (advance g j) k = advance g (j + k)"
  by (simp add: advance_def algebra_simps)

lemma line_prefix_advance: "line_prefix (advance g j) k = line_prefix g (j + k)"
  by (simp add: advance_def line_prefix_def algebra_simps)

lemma iadd_iadd: "iadd (iadd b s) t = iadd b (s @ t)"
  by (cases b) simp_all

lemma iadd_empty [simp]: "iadd b [] = b"
  by (cases b) simp_all

subsection \<open>The loop over the parameters\<close>

text \<open>The loop appends to \<open>outstring\<close>; whether it raises does not depend on what is there.\<close>

lemma parse_params_append:
  "parse_params h g cl c ps outstring =
     (case parse_params h g cl c ps [] of Inl e \<Rightarrow> Inl e | Inr ws \<Rightarrow> Inr (outstring @ ws))"
proof (induction ps arbitrary: outstring)
  case Nil
  show ?case by simp
next
  case (Cons p ps)
  show ?case
  proof (cases "param_word h g cl c p")
    case (Inl e)
    then show ?thesis by simp
  next
    case (Inr ws)
    show ?thesis
      using Inr Cons.IH [of "outstring @ ws"] Cons.IH [of ws]
      by (simp split: sum.split)
  qed
qed

subsection \<open>The tool change\<close>

text \<open>
  C2. A command \<open>M6\<close> with a tool number \<open>T\<close>, when the tool change text is empty and
  the formatting of its parameters does not raise: \<open>parse\<close> adds the line \<open>M5\<close>, the
  line \<open>M6 T\<close> with the number, and, when \<open>USE_TLO\<close> is set, the line \<open>G43 H\<close> with
  the same number; without \<open>USE_TLO\<close> the third line is left out. Each line has the
  prefix of \<open>linenumber\<close>, which is empty when numbering is off. Nothing else is
  added: the words that the loop over the parameters built are dropped.
\<close>

theorem tool_change_three_lines:
  assumes "Name c = ''M6''"
      and "Parameters c ''T'' = Some n"
      and "TOOL_CHANGE g = []"
      and "parse_params h g (currLocation l) c params [] = Inr ws"
  shows "parse_command h pathobj nextcommand c (l, g) =
           Inr (l\<lparr>out := iadd (out l)
                      (line_prefix g 1 @ ''M5'' @ [nl]
                       @ line_prefix g 2 @ ''M6 T'' @ str_int (pyint n) @ [nl]
                       @ (if USE_TLO g then line_prefix g 3 @ ''G43 H'' @ str_int (pyint n) @ [nl]
                          else [])),
                   lastcommand := Some ''M6'',
                   currLocation := currLocation l ++ Parameters c\<rparr>,
                advance g (if USE_TLO g then 3 else 2))"
proof -
  have loop: "\<And>os. parse_params h g (currLocation l) c params os = Inr (os @ ws)"
    using assms(4) by (subst parse_params_append) simp
  have tc: "tool_change c (l\<lparr>lastcommand := Some ''M6'',
                               currLocation := currLocation l ++ Parameters c\<rparr>, g) =
           Inr (l\<lparr>out := iadd (out l)
                      (line_prefix g 1 @ ''M5'' @ [nl]
                       @ line_prefix g 2 @ ''M6 T'' @ str_int (pyint n) @ [nl]
                       @ (if USE_TLO g then line_prefix g 3 @ ''G43 H'' @ str_int (pyint n) @ [nl]
                          else [])),
                   lastcommand := Some ''M6'',
                   currLocation := currLocation l ++ Parameters c\<rparr>,
                advance g (if USE_TLO g then 3 else 2))"
    using assms(2,3)
    by (simp add: tool_change_def linenumber_first line_prefix_advance advance_advance
          splitlines_def iadd_iadd)
  have "generic_command h nextcommand c (l, g) =
          tool_change c (l\<lparr>lastcommand := Some ''M6'',
                              currLocation := currLocation l ++ Parameters c\<rparr>, g)"
    using assms(1) by (simp add: generic_command_def finish_command_def loop Let_def)
  moreover have "parse_command h pathobj nextcommand c (l, g) = generic_command h nextcommand c (l, g)"
    using assms(1) by (simp add: parse_command_def)
  ultimately show ?thesis
    using tc by simp
qed

theorem tool_change_three_lines_witness:
  "Name (Command ''M6'' [''T'' \<mapsto> 5, ''X'' \<mapsto> 3]) = ''M6''
   \<and> Parameters (Command ''M6'' [''T'' \<mapsto> 5, ''X'' \<mapsto> 3]) ''T'' = Some 5
   \<and> TOOL_CHANGE example_globals = []
   \<and> parse_params exact_host example_globals (currLocation initial_locals)
        (Command ''M6'' [''T'' \<mapsto> 5, ''X'' \<mapsto> 3]) params [] = Inr [''X3.000'', ''T5'']
   \<and> map_sum id (out \<circ> fst) (parse_command exact_host (operation ''Op'' []) []
          (Command ''M6'' [''T'' \<mapsto> 5, ''X'' \<mapsto> 3]) (initial_locals, example_globals))
       = Inr (Str (''M5'' @ [nl] @ ''M6 T5'' @ [nl] @ ''G43 H5'' @ [nl]))"
proof -
  have a: "Name (Command ''M6'' [''T'' \<mapsto> 5, ''X'' \<mapsto> 3]) = ''M6''" by simp
  have b: "Parameters (Command ''M6'' [''T'' \<mapsto> 5, ''X'' \<mapsto> 3]) ''T'' = Some 5" by simp
  have c: "TOOL_CHANGE example_globals = []"
    by (simp add: example_globals_def initial_globals_def)
  have d: "parse_params exact_host example_globals (currLocation initial_locals)
        (Command ''M6'' [''T'' \<mapsto> 5, ''X'' \<mapsto> 3]) params [] = Inr [''X3.000'', ''T5'']"
    by code_simp
  have e: "str_int (pyint 5) = ''5''" by code_simp
  show ?thesis
    using tool_change_three_lines [OF a b c d, of "operation ''Op'' []" "[]"] a b c d e
    by (simp add: line_prefix_def initial_locals_def example_globals_def initial_globals_def)
qed

subsection \<open>A repeated coordinate\<close>

text \<open>
  A parameter \<open>X\<close>, \<open>Y\<close> or \<open>Z\<close> whose value is the one \<open>currLocation\<close> holds could as
  well be missing from the command, when repeated values are suppressed: every loop
  that looks at it passes over it, and \<open>currLocation.update\<close> stores what is there.
\<close>

lemma without_simps [simp]:
  "Name (without c p) = Name c"
  "Parameters (without c p) q = (if q = p then None else Parameters c q)"
  by (simp_all add: without_def)

lemma feed_word_without: "feed_word h g (without c p) v = feed_word h g c v"
  by (simp add: feed_word_def)

lemma length_word_same:
  "\<not> OUTPUT_DOUBLES g \<Longrightarrow> cl p = Some v \<Longrightarrow> length_word h g cl p v = Inr []"
  by (simp add: length_word_def)

lemma param_word_without:
  assumes "cl p = Some v" and "Parameters c p = Some v" and "\<not> OUTPUT_DOUBLES g"
      and "p \<in> {''X'', ''Y'', ''Z''}"
  shows "param_word h g cl (without c p) q = param_word h g cl c q"
proof (cases "q = p")
  case True
  have notint: "p \<noteq> ''F''" "p \<noteq> ''T''" "p \<noteq> ''H''" "p \<noteq> ''I''" "p \<noteq> ''J''" "p \<noteq> ''D''" "p \<noteq> ''S''"
    using assms(4) by auto
  have "param_word h g cl c p = length_word h g cl p v"
    using assms(2) notint by (simp add: param_word_def)
  then have "param_word h g cl c p = Inr []"
    using assms(1,3) by (simp add: length_word_same)
  moreover have "param_word h g cl (without c p) p = Inr []"
    by (simp add: param_word_def)
  ultimately show ?thesis
    using True by simp
next
  case False
  then show ?thesis
    by (simp add: param_word_def feed_word_without cong: option.case_cong if_cong)
qed


lemma parse_params_without:
  assumes "cl p = Some v" and "Parameters c p = Some v" and "\<not> OUTPUT_DOUBLES g"
      and "p \<in> {''X'', ''Y'', ''Z''}"
  shows "parse_params h g cl (without c p) ps outstring = parse_params h g cl c ps outstring"
proof (induction ps arbitrary: outstring)
  case Nil
  show ?case by simp
next
  case (Cons q ps)
  have "param_word h g cl (without c p) q = param_word h g cl c q"
    using assms by (rule param_word_without)
  then show ?case
    by (simp add: Cons.IH cong: sum.case_cong)
qed

lemma tap_axis_params_without:
  assumes "cl p = Some v" and "Parameters c p = Some v" and "\<not> OUTPUT_DOUBLES g"
  shows "tap_axis_params h g cl (without c p) ps s = tap_axis_params h g cl c ps s"
proof (induction ps arbitrary: s)
  case Nil
  show ?case by simp
next
  case (Cons q ps)
  show ?case
  proof (cases "q = p")
    case True
    then show ?thesis
      using assms by (simp add: Cons.IH)
  next
    case False
    then show ?thesis
      by (simp add: Cons.IH cong: option.case_cong sum.case_cong if_cong)
  qed
qed

lemma tap_pitch_params_without:
  assumes "p \<notin> set ps"
  shows "tap_pitch_params h g (without c p) ps s = tap_pitch_params h g c ps s"
  using assms
proof (induction ps arbitrary: s)
  case Nil
  show ?case by simp
next
  case (Cons q ps)
  then have "q \<noteq> p" and "p \<notin> set ps"
    by auto
  then show ?case
    using Cons.IH by (simp cong: option.case_cong sum.case_cong)
qed

lemma update_without:
  assumes "cl p = Some v" and "Parameters c p = Some v"
  shows "cl ++ Parameters (without c p) = cl ++ Parameters c"
proof
  fix q
  show "(cl ++ Parameters (without c p)) q = (cl ++ Parameters c) q"
    using assms by (simp add: map_add_def)
qed

lemma tool_change_without:
  assumes "p \<noteq> ''T''"
  shows "tool_change (without c p) s = tool_change c s"
  using assms by (simp add: tool_change_def)


lemma generic_command_without:
  assumes "currLocation l p = Some v" and "Parameters c p = Some v" and "\<not> OUTPUT_DOUBLES g"
      and "p \<in> {''X'', ''Y'', ''Z''}"
  shows "generic_command h nextcommand (without c p) (l, g) = generic_command h nextcommand c (l, g)"
proof -
  have "p \<noteq> ''T''"
    using assms(4) by auto
  then have tc: "\<And>s. tool_change (without c p) s = tool_change c s"
    by (rule tool_change_without)
  have loop: "\<And>os. parse_params h g (currLocation l) (without c p) params os
                    = parse_params h g (currLocation l) c params os"
    using assms by (rule parse_params_without)
  have upd: "currLocation l ++ Parameters (without c p) = currLocation l ++ Parameters c"
    using assms(1,2) by (rule update_without)
  have fin: "\<And>os s. finish_command (without c p) os s = finish_command c os s"
    by (simp add: finish_command_def tc cong: prod.case_cong if_cong)
  show ?thesis
    unfolding generic_command_def
    by (simp add: loop upd fin cong: list.case_cong sum.case_cong if_cong)
qed



subsection \<open>The tapping cycle: its loops and its result\<close>

text \<open>
  The loops of the cycle read three of the globals only, and append to the text they
  are given. When none of them raises, the cycle adds \<open>tap_text\<close>; when one raises,
  the cycle raises.
\<close>

lemma format_length_settings:
  assumes "UNIT_FORMAT g' = UNIT_FORMAT g" and "PRECISION g' = PRECISION g"
  shows "format_length h g' v = format_length h g v"
proof -
  have "precision_string g' = precision_string g"
    using assms(2) by (simp add: precision_string_def)
  then show ?thesis
    using assms(1) by (simp add: format_length_def cong: sum.case_cong)
qed

lemma tap_axis_params_settings:
  assumes "OUTPUT_DOUBLES g' = OUTPUT_DOUBLES g" and "UNIT_FORMAT g' = UNIT_FORMAT g"
      and "PRECISION g' = PRECISION g"
  shows "tap_axis_params h g' cl c ps s = tap_axis_params h g cl c ps s"
proof (induction ps arbitrary: s)
  case Nil
  show ?case by simp
next
  case (Cons q ps)
  have "\<And>v. format_length h g' v = format_length h g v"
    using assms(2,3) by (rule format_length_settings)
  then show ?case
    using assms(1) by (simp add: Cons.IH cong: option.case_cong sum.case_cong if_cong)
qed

lemma tap_pitch_params_settings:
  assumes "UNIT_FORMAT g' = UNIT_FORMAT g" and "PRECISION g' = PRECISION g"
  shows "tap_pitch_params h g' c ps s = tap_pitch_params h g c ps s"
proof (induction ps arbitrary: s)
  case Nil
  show ?case by simp
next
  case (Cons q ps)
  have "\<And>v. format_length h g' v = format_length h g v"
    using assms by (rule format_length_settings)
  then show ?case
    by (simp add: Cons.IH cong: option.case_cong sum.case_cong)
qed




lemma tap_axis_params_advance [simp]:
  "tap_axis_params h (advance g k) cl c ps s = tap_axis_params h g cl c ps s"
  by (rule tap_axis_params_settings) simp_all

lemma tap_pitch_params_advance [simp]:
  "tap_pitch_params h (advance g k) c ps s = tap_pitch_params h g c ps s"
  by (rule tap_pitch_params_settings) simp_all

lemma tap_axis_params_tapSpeed [simp]:
  "tap_axis_params h (g\<lparr>tapSpeed := t\<rparr>) cl c ps s = tap_axis_params h g cl c ps s"
  by (rule tap_axis_params_settings) simp_all

lemma tap_pitch_params_tapSpeed [simp]:
  "tap_pitch_params h (g\<lparr>tapSpeed := t\<rparr>) c ps s = tap_pitch_params h g c ps s"
  by (rule tap_pitch_params_settings) simp_all

lemma advance_tapSpeed: "(advance g k)\<lparr>tapSpeed := t\<rparr> = advance (g\<lparr>tapSpeed := t\<rparr>) k"
  by (simp add: advance_def)

lemma line_prefix_tapSpeed [simp]: "line_prefix (g\<lparr>tapSpeed := t\<rparr>) k = line_prefix g k"
  by (simp add: line_prefix_def)

lemma tap_cycle_result:
  assumes "tap_axis_params h g (currLocation l) c [''X'', ''Y''] [] = Inr xy"
      and "tap_axis_params h g (currLocation l) c [''Z'', ''R''] xy = Inr xyzr"
      and "tap_pitch_params h g c [''F'', ''P'', ''Q''] xyzr = Inr paramstring"
  shows "tap_cycle h c (l, g) =
           Inr (l\<lparr>out := iadd (out l) (tap_text c g xy paramstring)\<rparr>,
                advance (g\<lparr>tapSpeed := tap_speed c g\<rparr>) (if xy \<noteq> [] then 5 else 4))"
proof -
  have same: "g\<lparr>tapSpeed := tapSpeed g\<rparr> = g"
    by simp
  note rules = linenumber_first line_prefix_advance advance_advance iadd_iadd tap_text_def
    tap_speed_def advance_tapSpeed Let_def
  show ?thesis
  proof (cases "xy = []")
    case True
    show ?thesis
    proof (cases "Parameters c ''S''")
      case None
      show ?thesis
        unfolding tap_cycle_def
        using assms None True
        by (simp add: rules same del: tap_axis_params.simps tap_pitch_params.simps)
    next
      case (Some sp)
      show ?thesis
        unfolding tap_cycle_def
        using assms Some True
        by (simp add: rules del: tap_axis_params.simps tap_pitch_params.simps)
    qed
  next
    case False
    show ?thesis
    proof (cases "Parameters c ''S''")
      case None
      show ?thesis
        unfolding tap_cycle_def
        using assms None False
        by (simp add: rules same del: tap_axis_params.simps tap_pitch_params.simps)
    next
      case (Some sp)
      show ?thesis
        unfolding tap_cycle_def
        using assms Some False
        by (simp add: rules del: tap_axis_params.simps tap_pitch_params.simps)
    qed
  qed
qed


lemma tap_cycle_raises_xy:
  assumes "tap_axis_params h g (currLocation l) c [''X'', ''Y''] [] = Inl e"
  shows "tap_cycle h c (l, g) = Inl e"
  unfolding tap_cycle_def
  using assms
  by (simp add: linenumber_first Let_def del: tap_axis_params.simps tap_pitch_params.simps)

lemma tap_cycle_raises_zr:
  assumes "tap_axis_params h g (currLocation l) c [''X'', ''Y''] [] = Inr xy"
      and "tap_axis_params h g (currLocation l) c [''Z'', ''R''] xy = Inl e"
  shows "tap_cycle h c (l, g) = Inl e"
proof (cases "xy = []")
  case True
  show ?thesis
    unfolding tap_cycle_def
    using assms True
    by (simp add: linenumber_first Let_def split: option.split
          del: tap_axis_params.simps tap_pitch_params.simps)
next
  case False
  show ?thesis
    unfolding tap_cycle_def
    using assms False
    by (simp add: linenumber_first Let_def split: option.split
          del: tap_axis_params.simps tap_pitch_params.simps)
qed

lemma tap_cycle_raises_fpq:
  assumes "tap_axis_params h g (currLocation l) c [''X'', ''Y''] [] = Inr xy"
      and "tap_axis_params h g (currLocation l) c [''Z'', ''R''] xy = Inr xyzr"
      and "tap_pitch_params h g c [''F'', ''P'', ''Q''] xyzr = Inl e"
  shows "tap_cycle h c (l, g) = Inl e"
proof (cases "xy = []")
  case True
  show ?thesis
    unfolding tap_cycle_def
    using assms True
    by (simp add: linenumber_first Let_def split: option.split
          del: tap_axis_params.simps tap_pitch_params.simps)
next
  case False
  show ?thesis
    unfolding tap_cycle_def
    using assms False
    by (simp add: linenumber_first Let_def split: option.split
          del: tap_axis_params.simps tap_pitch_params.simps)
qed

subsection \<open>The first location\<close>

lemma tap_cycle_without:
  assumes "currLocation l p = Some v" and "Parameters c p = Some v" and "\<not> OUTPUT_DOUBLES g"
      and "p \<in> {''X'', ''Y'', ''Z''}"
  shows "tap_cycle h (without c p) (l, g) = tap_cycle h c (l, g)"
proof -
  have neq: "p \<noteq> ''S''" "p \<notin> set [''F'', ''P'', ''Q'']"
    using assms(4) by auto
  have axes: "\<And>ps s. tap_axis_params h g (currLocation l) (without c p) ps s
                      = tap_axis_params h g (currLocation l) c ps s"
    using assms(1,2,3) by (rule tap_axis_params_without)
  have pitch: "\<And>s. tap_pitch_params h g (without c p) [''F'', ''P'', ''Q''] s
                    = tap_pitch_params h g c [''F'', ''P'', ''Q''] s"
    using neq(2) by (rule tap_pitch_params_without)
  have same_text: "\<And>xy ps. tap_text (without c p) g xy ps = tap_text c g xy ps"
    using neq(1) by (simp add: tap_text_def tap_speed_def)
  have speed: "tap_speed (without c p) g = tap_speed c g"
    using neq(1) by (simp add: tap_speed_def)
  show ?thesis
  proof (cases "tap_axis_params h g (currLocation l) c [''X'', ''Y''] []")
    case (Inl e)
    then show ?thesis
      using tap_cycle_raises_xy [of h g l c e] tap_cycle_raises_xy [of h g l "without c p" e]
      by (simp only: axes)
  next
    case xy: (Inr xy)
    show ?thesis
    proof (cases "tap_axis_params h g (currLocation l) c [''Z'', ''R''] xy")
      case (Inl e)
      then show ?thesis
        using xy tap_cycle_raises_zr [of h g l c xy e]
          tap_cycle_raises_zr [of h g l "without c p" xy e]
        by (simp only: axes)
    next
      case zr: (Inr xyzr)
      show ?thesis
      proof (cases "tap_pitch_params h g c [''F'', ''P'', ''Q''] xyzr")
        case (Inl e)
        then show ?thesis
          using xy zr tap_cycle_raises_fpq [of h g l c xy xyzr e]
            tap_cycle_raises_fpq [of h g l "without c p" xy xyzr e]
          by (simp only: axes pitch)
      next
        case (Inr paramstring)
        then show ?thesis
          using xy zr tap_cycle_result [of h g l c xy xyzr paramstring]
            tap_cycle_result [of h g l "without c p" xy xyzr paramstring]
          by (simp only: axes pitch same_text speed)
      qed
    qed
  qed
qed

lemma parse_command_without:
  assumes "currLocation l p = Some v" and "Parameters c p = Some v" and "\<not> OUTPUT_DOUBLES g"
      and "p \<in> {''X'', ''Y'', ''Z''}"
  shows "parse_command h pathobj nextcommand (without c p) (l, g)
           = parse_command h pathobj nextcommand c (l, g)"
proof -
  have gen: "generic_command h nextcommand (without c p) (l, g)
               = generic_command h nextcommand c (l, g)"
    using assms by (rule generic_command_without)
  have tap: "tap_cycle h (without c p) (l, g) = tap_cycle h c (l, g)"
    using assms by (rule tap_cycle_without)
  show ?thesis
    unfolding parse_command_def
    by (simp add: gen tap cong: if_cong option.case_cong)
qed

text \<open>
  C10. \<open>parse\<close> starts every leaf with \<open>currLocation\<close> holding \<open>X\<close>, \<open>Y\<close> and \<open>Z\<close> at
  \<open>-1\<close> and \<open>F\<close> at \<open>0\<close>. So when repeated values are suppressed and the first command
  of the leaf has \<open>X\<close>, \<open>Y\<close> or \<open>Z\<close> at \<open>-1\<close>, the commands give the same output, and
  leave the same state, as if the first command did not have that parameter.
\<close>

theorem first_location_hides_minus_one:
  assumes "\<not> OUTPUT_DOUBLES g"
      and "p \<in> {''X'', ''Y'', ''Z''}"
      and "Parameters c p = Some (- 1)"
  shows "currLocation initial_locals = [''X'' \<mapsto> - 1, ''Y'' \<mapsto> - 1, ''Z'' \<mapsto> - 1, ''F'' \<mapsto> 0]
       \<and> parse_commands h pathobj (c # cs) (initial_locals, g)
           = parse_commands h pathobj (without c p # cs) (initial_locals, g)"
proof -
  have seeded: "currLocation initial_locals p = Some (- 1)"
    using assms(2) by (auto simp add: initial_locals_def firstmove_Parameters_def)
  have "parse_command h pathobj (case cs of [] \<Rightarrow> [] | c' # x \<Rightarrow> Name c') (without c p)
          (initial_locals, g)
        = parse_command h pathobj (case cs of [] \<Rightarrow> [] | c' # x \<Rightarrow> Name c') c (initial_locals, g)"
    using seeded assms(3,1,2) by (rule parse_command_without)
  then show ?thesis
    by (simp add: initial_locals_def firstmove_Parameters_def)
qed

theorem first_location_hides_minus_one_witness:
  "\<not> OUTPUT_DOUBLES example_globals
   \<and> ''X'' \<in> {''X'', ''Y'', ''Z''}
   \<and> Parameters (Command ''G1'' [''X'' \<mapsto> - 1, ''Y'' \<mapsto> 5]) ''X'' = Some (- 1)
   \<and> map_sum id (out \<circ> fst)
        (parse_commands exact_host (operation ''Op'' [])
           [Command ''G1'' [''X'' \<mapsto> - 1, ''Y'' \<mapsto> 5]] (initial_locals, example_globals))
       = Inr (Str (''G1 Y5.000'' @ [nl]))"
proof -
  have a: "\<not> OUTPUT_DOUBLES example_globals"
    by (simp add: example_globals_def initial_globals_def)
  have b: "''X'' \<in> {''X'', ''Y'', ''Z''}"
    by simp
  have c: "Parameters (Command ''G1'' [''X'' \<mapsto> - 1, ''Y'' \<mapsto> 5]) ''X'' = Some (- 1)"
    by simp
  have d: "map_sum id (out \<circ> fst)
        (parse_commands exact_host (operation ''Op'' [])
           [without (Command ''G1'' [''X'' \<mapsto> - 1, ''Y'' \<mapsto> 5]) ''X'']
           (initial_locals, example_globals))
       = Inr (Str (''G1 Y5.000'' @ [nl]))"
    by code_simp
  show ?thesis
    using first_location_hides_minus_one [OF a b c, of exact_host "operation ''Op'' []" "[]"] a b c d
    by simp
qed

subsection \<open>The tapping cycle: the drilling cycles of a tap\<close>




subsection \<open>Inactive operations\<close>

lemma export_objects_skips:
  assumes "inactive obj"
  shows "export_objects h (obj # objs) s = export_objects h objs s"
  using assms by (auto simp add: inactive_def)

text \<open>
  C3, as amended. The two tests for an inactive operation stand in the loop of
  \<open>export\<close> over \<open>objectslist\<close>. An inactive object of that list, wherever it
  stands, adds nothing to the text and leaves the globals (the line number and the
  tapping speed among them) as they are: the loop gives the same result as on the list
  without the object. So does \<open>export\<close>, provided the object has a \<open>Path\<close> (the test
  before the loop looks at every object) and the list without it is not empty.
  \<open>lastcommand\<close> and \<open>currLocation\<close> are variables of \<open>parse\<close>, which is not called.
\<close>

theorem inactive_operation_skipped:
  assumes "inactive obj"
  shows "export_objects h (before @ obj # after) s = export_objects h (before @ after) s
       \<and> (Path obj \<noteq> None \<and> before @ after \<noteq> [] \<longrightarrow>
            export h editor (before @ obj # after) filename argstring g
              = export h editor (before @ after) filename argstring g)"
proof -
  have loop: "\<And>s. export_objects h (before @ obj # after) s = export_objects h (before @ after) s"
  proof (induction before)
    case Nil
    show ?case
      by (simp only: append_Nil export_objects_skips [OF assms])
  next
    case (Cons x xs)
    show ?case
      by (simp add: Cons.IH cong: sum.case_cong if_cong)
  qed
  have "export h editor (before @ obj # after) filename argstring g
          = export h editor (before @ after) filename argstring g"
    if "Path obj \<noteq> None" and "before @ after \<noteq> []"
  proof -
    have paths: "list_ex (\<lambda>obj. Path obj = None) (before @ obj # after)
                   = list_ex (\<lambda>obj. Path obj = None) (before @ after)"
      using that(1) by auto
    have nonempty: "(before @ obj # after = []) = (before @ after = [])"
      using that(2) by simp
    show ?thesis
      unfolding export_def
      by (simp only: paths nonempty loop)
  qed
  then show ?thesis
    using loop by simp
qed

theorem inactive_operation_skipped_witness:
  "inactive inactive_pocket
   \<and> map_sum id (returned \<circ> fst)
        (export exact_host None
           [inactive_pocket,
            operation ''Drill'' [Command ''G0'' [''Z'' \<mapsto> 9]]]
           ''-'' (Parsed (default_args\<lparr>no_header := True, no_comments := True\<rparr>)) example_globals)
       = Inr (Some (''G17 G54 G40 G49 G80 G90'' @ [nl] @ ''G21'' @ [nl] @ ''G0 Z9.000'' @ [nl]
                    @ ''M05'' @ [nl] @ ''G53 G0 Z0.000'' @ [nl] @ ''G53 G0 X-350.000 Y0.000'' @ [nl]
                    @ ''M30'' @ [nl] @ ''%'' @ [nl]))"
proof -
  let ?pocket = "inactive_pocket"
  let ?drill = "operation ''Drill'' [Command ''G0'' [''Z'' \<mapsto> 9]]"
  let ?args = "Parsed (default_args\<lparr>no_header := True, no_comments := True\<rparr>)"
  have a: "inactive ?pocket"
    by (simp add: inactive_def inactive_pocket_def)
  have b: "Path ?pocket \<noteq> None \<and> [] @ [?drill] \<noteq> []"
    by (simp add: inactive_pocket_def)
  have c: "export exact_host None ([] @ ?pocket # [?drill]) ''-'' ?args example_globals
             = export exact_host None ([] @ [?drill]) ''-'' ?args example_globals"
    using inactive_operation_skipped [OF a, of exact_host "[]" "[?drill]"] b by blast
  have d: "map_sum id (returned \<circ> fst)
             (export exact_host None ([] @ [?drill]) ''-'' ?args example_globals)
       = Inr (Some (''G17 G54 G40 G49 G80 G90'' @ [nl] @ ''G21'' @ [nl] @ ''G0 Z9.000'' @ [nl]
                    @ ''M05'' @ [nl] @ ''G53 G0 Z0.000'' @ [nl] @ ''G53 G0 X-350.000 Y0.000'' @ [nl]
                    @ ''M30'' @ [nl] @ ''%'' @ [nl]))"
    by (simp add: model_equations evaluation)
  show ?thesis
    using a c d by simp
qed

text \<open>
  C3, as stated, fails for a leaf inside a group: \<open>parse\<close> does not look at \<open>Active\<close>.
  The job whose group holds the inactive pocket is exported with the line of the
  pocket; the job with the empty group is exported without it.
\<close>

theorem inactive_leaf_in_group_counterexample:
  "Active inactive_pocket = Some False
   \<and> Group job_with_inactive_pocket = Some [inactive_pocket]
   \<and> map_sum id (returned \<circ> fst)
        (export exact_host None [job_with_inactive_pocket] ''-''
           (Parsed (default_args\<lparr>no_header := True, no_comments := True\<rparr>)) example_globals)
       = Inr (Some (''G17 G54 G40 G49 G80 G90'' @ [nl] @ ''G21'' @ [nl] @ ''G1 X5.000'' @ [nl]
                    @ ''M05'' @ [nl] @ ''G53 G0 Z0.000'' @ [nl] @ ''G53 G0 X-350.000 Y0.000'' @ [nl]
                    @ ''M30'' @ [nl] @ ''%'' @ [nl]))
   \<and> map_sum id (returned \<circ> fst)
        (export exact_host None [job_without_pocket] ''-''
           (Parsed (default_args\<lparr>no_header := True, no_comments := True\<rparr>)) example_globals)
       = Inr (Some (''G17 G54 G40 G49 G80 G90'' @ [nl] @ ''G21'' @ [nl]
                    @ ''M05'' @ [nl] @ ''G53 G0 Z0.000'' @ [nl] @ ''G53 G0 X-350.000 Y0.000'' @ [nl]
                    @ ''M30'' @ [nl] @ ''%'' @ [nl]))"
  by (simp add: inactive_pocket_def job_with_inactive_pocket_def job_without_pocket_def
        model_equations evaluation)

subsection \<open>The second of two equal commands\<close>

lemma generic_command_unfold:
  "generic_command h nextcommand c (l, g) =
    (if Name c = ''G80'' \<and> lastcommand l = Some nextcommand then Inr (l, g)
     else if Name c = [] then Inl IndexError
     else if hd (Name c) = CHR ''('' \<and> \<not> OUTPUT_COMMENTS g then Inr (l, g)
     else (case parse_params h g (currLocation l) c params
                  (if MODAL g \<and> lastcommand l = Some (Name c) then [] else [Name c]) of
             Inl e \<Rightarrow> Inl e
           | Inr outstring \<Rightarrow>
               finish_command c outstring
                 (l\<lparr>lastcommand := Some (Name c),
                    currLocation := currLocation l ++ Parameters c\<rparr>, g)))"
proof (cases "Name c")
  case Nil
  then show ?thesis
    by (simp add: generic_command_def)
next
  case (Cons ch rest)
  have "(case Name c of [] \<Rightarrow> A | x # xs \<Rightarrow> B x) = B (hd (Name c))" for A :: "pyerror + locals \<times> globals" and B
    using Cons by simp
  moreover have "Name c \<noteq> []"
    using Cons by simp
  ultimately show ?thesis
    by (simp add: generic_command_def Let_def)
qed

lemma param_word_repeat:
  assumes "\<not> OUTPUT_DOUBLES g"
      and "\<forall>p v. Parameters c p = Some v \<longrightarrow> cl p = Some v"
  shows "param_word h g cl c p =
           Inr (if p \<in> set [''I'', ''J'', ''S'', ''T'', ''H'', ''D'']
                then (case Parameters c p of None \<Rightarrow> [] | Some v \<Rightarrow> [p @ str_int (pyint v)])
                else [])"
proof (cases "Parameters c p")
  case None
  then show ?thesis
    by (simp add: param_word_def)
next
  case (Some v)
  then have "cl p = Some v"
    using assms(2) by simp
  then show ?thesis
    using Some assms(1) by (auto simp add: param_word_def length_word_def)
qed

lemma parse_params_repeat:
  assumes "\<not> OUTPUT_DOUBLES g"
      and "\<forall>p v. Parameters c p = Some v \<longrightarrow> cl p = Some v"
  shows "parse_params h g cl c ps outstring =
           Inr (outstring @ concat (map (\<lambda>p. if p \<in> set [''I'', ''J'', ''S'', ''T'', ''H'', ''D'']
                then (case Parameters c p of None \<Rightarrow> [] | Some v \<Rightarrow> [p @ str_int (pyint v)])
                else []) ps))"
proof (induction ps arbitrary: outstring)
  case Nil
  show ?case by simp
next
  case (Cons p ps)
  show ?case
    by (simp only: parse_params.simps param_word_repeat [OF assms] sum.case Cons.IH
          list.map concat.simps append_assoc)
qed

lemma map_add_agree:
  assumes "\<forall>p v. m p = Some v \<longrightarrow> cl p = Some v"
  shows "cl ++ m = cl"
proof
  fix p
  show "(cl ++ m) p = cl p"
    using assms by (cases "m p") (simp_all add: map_add_def)
qed

text \<open>
  C4, as amended. A command of the general path is met in the state that its own
  first occurrence leaves: \<open>lastcommand\<close> is its name and \<open>currLocation\<close> holds its
  parameters. With repeated values suppressed, the loop over the parameters gives
  exactly the words of the letters \<open>I\<close>, \<open>J\<close>, \<open>S\<close>, \<open>T\<close>, \<open>H\<close> and \<open>D\<close> that the
  command has: every other letter is left out, and these six are written whether
  they changed or not. The line is made of the name, unless \<open>MODAL\<close> drops it, and
  these words. So when the command has none of the six letters and \<open>MODAL\<close> is set,
  nothing is added and the state stays as it is. The tool change and the \<open>message\<close>
  command do not take this path to the end and are left out.
\<close>

theorem repeated_command_second_line:
  assumes "\<not> OUTPUT_DOUBLES g"
      and "lastcommand l = Some (Name c)"
      and "\<forall>p v. Parameters c p = Some v \<longrightarrow> currLocation l p = Some v"
      and "Name c \<noteq> ''M6''" and "Name c \<noteq> ''message''" and "Name c \<noteq> []"
  shows "parse_params h g (currLocation l) c params [] = Inr (integer_words c)
       \<and> generic_command h nextcommand c (l, g) =
           (if (Name c = ''G80'' \<and> nextcommand = ''G80'')
               \<or> (hd (Name c) = CHR ''('' \<and> \<not> OUTPUT_COMMENTS g)
            then Inr (l, g)
            else emit_line ((if MODAL g then [] else [Name c]) @ integer_words c) (l, g))
       \<and> (MODAL g \<and> integer_words c = [] \<longrightarrow> generic_command h nextcommand c (l, g) = Inr (l, g))"
proof -
  have letters: "concat (map (\<lambda>p. if p \<in> set [''I'', ''J'', ''S'', ''T'', ''H'', ''D'']
                then (case Parameters c p of None \<Rightarrow> [] | Some v \<Rightarrow> [p @ str_int (pyint v)])
                else []) params) = integer_words c"
    by (simp add: params_def integer_words_def)
  have words: "\<And>os. parse_params h g (currLocation l) c params os = Inr (os @ integer_words c)"
    by (simp only: parse_params_repeat [OF assms(1,3)] letters)
  have same: "l\<lparr>lastcommand := Some (Name c), currLocation := currLocation l ++ Parameters c\<rparr> = l"
    using assms(2) map_add_agree [OF assms(3)] by simp
  have first_char: "\<And>A B. (case Name c of [] \<Rightarrow> A | ch # x \<Rightarrow> B ch) = B (hd (Name c))"
    using assms(6) by (cases "Name c") simp_all
  have next_same: "(Some (Name c) = Some nextcommand) = (nextcommand = Name c)"
    by auto
  have gen: "generic_command h nextcommand c (l, g) =
           (if (Name c = ''G80'' \<and> nextcommand = ''G80'')
               \<or> (hd (Name c) = CHR ''('' \<and> \<not> OUTPUT_COMMENTS g)
            then Inr (l, g)
            else emit_line ((if MODAL g then [] else [Name c]) @ integer_words c) (l, g))"
    unfolding generic_command_def
    by (auto simp add: first_char assms(2) next_same words same assms(4,5) Let_def
          finish_command_def)
  have "generic_command h nextcommand c (l, g) = Inr (l, g)" if "MODAL g" and "integer_words c = []"
    using that gen by (simp add: emit_line_def)
  then show ?thesis
    using words [of "[]"] gen by simp
qed

theorem repeated_command_second_line_witness:
  "\<not> OUTPUT_DOUBLES example_globals
   \<and> lastcommand after_linear_move = Some (Name linear_move)
   \<and> currLocation after_linear_move ''X'' = Parameters linear_move ''X''
   \<and> currLocation after_linear_move ''Y'' = Parameters linear_move ''Y''
   \<and> dom (Parameters linear_move) = {''X'', ''Y''}
   \<and> Name linear_move \<noteq> ''M6'' \<and> Name linear_move \<noteq> ''message'' \<and> Name linear_move \<noteq> []
   \<and> parse_command exact_host (operation ''Op'' []) ''G1'' linear_move
         (initial_locals, example_globals) = Inr (after_linear_move, example_globals)
   \<and> generic_command exact_host [] linear_move (after_linear_move, example_globals)
       = Inr (after_linear_move, example_globals)"
proof -
  have a: "\<not> OUTPUT_DOUBLES example_globals"
    by (simp add: example_globals_def initial_globals_def)
  have b: "lastcommand after_linear_move = Some (Name linear_move)"
    by (simp add: after_linear_move_def linear_move_def)
  have c: "\<forall>p v. Parameters linear_move p = Some v \<longrightarrow> currLocation after_linear_move p = Some v"
    by (simp add: after_linear_move_def linear_move_def map_add_def)
  have d: "Name linear_move \<noteq> ''M6''" "Name linear_move \<noteq> ''message''" "Name linear_move \<noteq> []"
    by (simp_all add: linear_move_def)
  have e: "parse_command exact_host (operation ''Op'' []) ''G1'' linear_move
         (initial_locals, example_globals) = Inr (after_linear_move, example_globals)"
    by (simp add: after_linear_move_def linear_move_def model_equations evaluation)
  have f: "MODAL example_globals \<and> integer_words linear_move = []"
    by (simp add: example_globals_def initial_globals_def integer_words_def linear_move_def)
  have g: "currLocation after_linear_move ''X'' = Parameters linear_move ''X''"
    "currLocation after_linear_move ''Y'' = Parameters linear_move ''Y''"
    "dom (Parameters linear_move) = {''X'', ''Y''}"
    by (auto simp add: after_linear_move_def linear_move_def map_add_def split: if_splits)
  show ?thesis
    using repeated_command_second_line [OF a b c d, of exact_host "[]"] a b d e f g by blast
qed

text \<open>
  C4, as stated, fails for the letters that are written as integers: the second of
  two equal arcs is written with its \<open>I\<close> and \<open>J\<close>, which did not change.
\<close>

theorem arc_offsets_repeated_counterexample:
  "map_sum id (out \<circ> fst)
     (parse_commands exact_host (operation ''Op'' []) [arc, arc] (initial_locals, example_globals))
   = Inr (Str (''G2 X1.000 Y1.000 I5 J0'' @ [nl] @ ''I5 J0'' @ [nl]))"
  by (simp add: arc_def model_equations evaluation)

subsection \<open>What a call assigns among the globals\<close>


lemma keeps_settings_refl [simp]: "keeps_settings g g"
  by (simp add: keeps_settings_def)


lemma keeps_settings_advance [simp]: "keeps_settings g (advance g k)"
  by (simp add: keeps_settings_def settings_def advance_def)

lemma keeps_settings_tapSpeed [simp]: "keeps_settings g (g\<lparr>tapSpeed := t\<rparr>)"
  by (simp add: keeps_settings_def settings_def)

lemma keeps_settings_advance_tapSpeed [simp]:
  "keeps_settings g (advance (g\<lparr>tapSpeed := t\<rparr>) k)"
  by (simp add: keeps_settings_def settings_def advance_def)


lemma numbered_lines_advance: "snd (numbered_lines ls g) = advance g (int (length ls))"
proof (induction ls arbitrary: g)
  case Nil
  show ?case
    by (simp add: advance_def)
next
  case (Cons x xs)
  have "snd (numbered_lines xs (advance g 1)) = advance g (1 + int (length xs))"
    by (simp only: Cons.IH advance_advance)
  then show ?case
    by (cases "numbered_lines xs (advance g 1)") (simp add: linenumber_first)
qed

lemma numbered_lines_keeps:
  assumes "numbered_lines ls g = (t, g')"
  shows "keeps_settings g g'"
proof -
  have "g' = advance g (int (length ls))"
    using numbered_lines_advance [of ls g] assms by simp
  then show ?thesis
    by simp
qed

lemma emit_line_keeps:
  assumes "emit_line ws (l, g) = Inr (l', g')"
  shows "keeps_settings g g' \<and> lastcommand l' = lastcommand l \<and> currLocation l' = currLocation l"
proof (cases ws)
  case Nil
  then show ?thesis
    using assms by (simp add: emit_line_def)
next
  case (Cons w rest)
  show ?thesis
  proof (cases "OUTPUT_LINE_NUMBERS g \<and> w \<noteq> [] \<and> hd w \<noteq> CHR ''(''")
    case True
    then obtain ch x where w: "w = ch # x" and ch: "ch \<noteq> CHR ''(''"
      by (cases w) auto
    show ?thesis
    proof (cases "iadd_words (out l) (line_prefix g 1 # ws)")
      case (Str t)
      then show ?thesis
        using assms Cons True w ch by (auto simp add: emit_line_def linenumber_first)
    next
      case (Chars t)
      then show ?thesis
        using assms Cons True w ch by (simp add: emit_line_def linenumber_first)
    qed
  next
    case False
    show ?thesis
    proof (cases "iadd_words (out l) ws")
      case (Str t)
      then show ?thesis
        using assms Cons False
        by (cases w) (auto simp add: emit_line_def linenumber_first split: if_splits)
    next
      case (Chars t)
      then show ?thesis
        using assms Cons False
        by (cases w) (auto simp add: emit_line_def linenumber_first split: if_splits)
    qed
  qed
qed

lemma tool_change_keeps:
  assumes "tool_change c (l, g) = Inr (l', g')"
  shows "keeps_settings g g' \<and> lastcommand l' = lastcommand l \<and> currLocation l' = currLocation l"
proof -
  obtain tc g2 where nl: "numbered_lines (splitlines True (TOOL_CHANGE g)) (advance g 1) = (tc, g2)"
    by (cases "numbered_lines (splitlines True (TOOL_CHANGE g)) (advance g 1)") simp
  have g2: "g2 = advance g (1 + int (length (splitlines True (TOOL_CHANGE g))))"
    using numbered_lines_advance [of "splitlines True (TOOL_CHANGE g)" "advance g 1"] nl
    by (simp add: advance_advance)
  show ?thesis
  proof (cases "Parameters c ''T''")
    case None
    then show ?thesis
      using assms nl by (simp add: tool_change_def linenumber_first)
  next
    case (Some t)
    show ?thesis
    proof (cases "USE_TLO g")
      case True
      then show ?thesis
        using assms nl g2 Some
        by (auto simp add: tool_change_def linenumber_first advance_advance Let_def)
    next
      case False
      then show ?thesis
        using assms nl g2 Some
        by (auto simp add: tool_change_def linenumber_first advance_advance Let_def)
    qed
  qed
qed



lemma finish_command_keeps:
  assumes "finish_command c ws (l, g) = Inr (l', g')"
  shows "keeps_settings g g' \<and> lastcommand l' = lastcommand l \<and> currLocation l' = currLocation l"
proof (cases "Name c = ''M6''")
  case True
  then have "tool_change c (l, g) = Inr (l', g')"
    using assms by (simp add: finish_command_def)
  then show ?thesis
    by (rule tool_change_keeps)
next
  case not_change: False
  show ?thesis
  proof (cases "Name c = ''message''")
    case False
    then have "emit_line ws (l, g) = Inr (l', g')"
      using assms not_change by (simp add: finish_command_def)
    then show ?thesis
      by (rule emit_line_keeps)
  next
    case message: True
    show ?thesis
    proof (cases "OUTPUT_COMMENTS g")
      case False
      then have "emit_line ws (l\<lparr>out := Chars []\<rparr>, g) = Inr (l', g')"
        using assms not_change message by (simp add: finish_command_def)
      then show ?thesis
        using emit_line_keeps [of ws "l\<lparr>out := Chars []\<rparr>" g l' g'] by simp
    next
      case True
      show ?thesis
      proof (cases ws)
        case Nil
        then show ?thesis
          using assms not_change message True by (simp add: finish_command_def)
      next
        case (Cons w rest)
        then have "emit_line rest (l, g) = Inr (l', g')"
          using assms not_change message True by (simp add: finish_command_def)
        then show ?thesis
          by (rule emit_line_keeps)
      qed
    qed
  qed
qed

lemma generic_command_keeps:
  assumes "generic_command h nextcommand c (l, g) = Inr (l', g')"
  shows "keeps_settings g g'
       \<and> (\<not> (Name c = ''G80'' \<and> lastcommand l = Some nextcommand)
            \<and> \<not> (hd (Name c) = CHR ''('' \<and> \<not> OUTPUT_COMMENTS g)
          \<longrightarrow> lastcommand l' = Some (Name c) \<and> currLocation l' = currLocation l ++ Parameters c)"
proof (cases "Name c = ''G80'' \<and> lastcommand l = Some nextcommand")
  case True
  then show ?thesis
    using assms by (simp add: generic_command_unfold)
next
  case not_cancel: False
  show ?thesis
  proof (cases "Name c = []")
    case True
    then show ?thesis
      using assms not_cancel by (simp add: generic_command_unfold)
  next
    case named: False
    show ?thesis
    proof (cases "hd (Name c) = CHR ''('' \<and> \<not> OUTPUT_COMMENTS g")
      case True
      then show ?thesis
        using assms not_cancel named by (simp add: generic_command_unfold)
    next
      case not_comment: False
      let ?os = "if MODAL g \<and> lastcommand l = Some (Name c) then [] else [Name c]"
      let ?l1 = "l\<lparr>lastcommand := Some (Name c), currLocation := currLocation l ++ Parameters c\<rparr>"
      show ?thesis
      proof (cases "parse_params h g (currLocation l) c params ?os")
        case (Inl e)
        then show ?thesis
          using assms not_cancel named not_comment by (simp add: generic_command_unfold)
      next
        case (Inr ws)
        then have "finish_command c ws (?l1, g) = Inr (l', g')"
          using assms not_cancel named not_comment by (simp add: generic_command_unfold)
        then show ?thesis
          using finish_command_keeps [of c ws ?l1 g l' g'] by simp
      qed
    qed
  qed
qed













subsection \<open>Two calls of export\<close>











subsection \<open>The state that a command leaves\<close>

text \<open>
  The state in which the second of two equal commands is met above is the one that
  the general path leaves, when it is not left early.
\<close>

lemma first_occurrence_leaves:
  assumes "generic_command h nextcommand c (l, g) = Inr (l', g')"
      and "\<not> (Name c = ''G80'' \<and> lastcommand l = Some nextcommand)"
      and "\<not> (hd (Name c) = CHR ''('' \<and> \<not> OUTPUT_COMMENTS g)"
  shows "lastcommand l' = Some (Name c)
       \<and> (\<forall>p v. Parameters c p = Some v \<longrightarrow> currLocation l' p = Some v)
       \<and> OUTPUT_DOUBLES g' = OUTPUT_DOUBLES g"
proof -
  have keeps: "keeps_settings g g'"
    and state: "lastcommand l' = Some (Name c) \<and> currLocation l' = currLocation l ++ Parameters c"
    using generic_command_keeps [OF assms(1)] assms(2,3) by blast+
  have "settings g' = settings g"
    using keeps by (simp only: keeps_settings_def)
  then have "OUTPUT_DOUBLES (settings g') = OUTPUT_DOUBLES (settings g)"
    by simp
  then have "OUTPUT_DOUBLES g' = OUTPUT_DOUBLES g"
    by (simp add: settings_def)
  then show ?thesis
    using state by simp
qed

subsection \<open>Line numbers in the tapping cycle\<close>

text \<open>
  C6. With line numbers on, the tapping operation is exported with a number on every
  line of the cycle but \<open>M29\<close>, which the source adds without a call of
  \<open>linenumber\<close>. The first number is 10: \<open>linenumber\<close> adds 5 to \<open>LINENR\<close>, which
  starts at 5, before it returns the number.
\<close>

theorem tap_start_line_not_numbered:
  "map_sum id (returned \<circ> fst)
     (export exact_host None [tap_operation] ''-'' (Parsed numbered_args) example_globals)
   = Inr (Some (''N10 G17 G54 G40 G49 G80 G90'' @ [nl] @ ''N15 G21'' @ [nl]
                @ ''N20 G95'' @ [nl] @ ''N25 G00 X10.000 Y20.000'' @ [nl]
                @ ''M29 S500'' @ [nl]
                @ ''N30 G84 X10.000 Y20.000 Z-10.000 R2.000 F1.500'' @ [nl]
                @ ''N35 G80'' @ [nl] @ ''N40 G94'' @ [nl]
                @ ''N45 M05'' @ [nl] @ ''N50 G53 G0 Z0.000'' @ [nl]
                @ ''N55 G53 G0 X-350.000 Y0.000'' @ [nl]
                @ ''N60 M30'' @ [nl] @ ''%'' @ [nl]))"
  by (simp add: tap_operation_def numbered_args_def model_equations evaluation)

subsection \<open>Arguments that do not parse\<close>

text \<open>
  When \<open>shlex\<close> raises, and when an object of the list has no \<open>Path\<close>, \<open>export\<close>
  returns \<open>None\<close> and writes no file.
\<close>

lemma export_unparseable: 
  "export h editor objectslist filename Raises_Exception g
     = Inr (\<lparr>returned = None, written = None\<rparr>, g)"
  by (simp add: export_def processArguments_def)

lemma export_not_a_path:
  assumes "list_ex (\<lambda>obj. Path obj = None) objectslist"
  shows "export h editor objectslist filename (Parsed a) g
     = Inr (\<lparr>returned = None, written = None\<rparr>, assign_args a g)"
  using assms by (simp add: export_def processArguments_def)

text \<open>
  C7. When \<open>argparse\<close> rejects the arguments it raises \<open>SystemExit\<close>, which
  \<open>except Exception\<close> does not catch: \<open>export\<close> does not return \<open>None\<close>, the exit
  passes through it.
\<close>

theorem unrecognised_option_exits:
  "export h editor objectslist filename Raises_SystemExit g = Inl SystemExit"
  by (simp add: export_def processArguments_def)

subsection \<open>The message command\<close>

text \<open>Once \<open>out\<close> is a list, adding a line raises.\<close>

lemma iadd_words_list: "\<exists>cs'. iadd_words (Chars cs) ws = Chars cs'"
  by (induction ws arbitrary: cs) simp_all

lemma emit_line_list_raises:
  assumes "w \<noteq> []"
  shows "emit_line (w # ws) (l\<lparr>out := Chars cs\<rparr>, g) = Inl AttributeError"
proof -
  obtain ch rest where w: "w = ch # rest"
    using assms by (cases w) simp_all
  obtain cs1 where plain: "iadd_words (Chars cs) (w # ws) = Chars cs1"
    using iadd_words_list by blast
  obtain cs2 where numbered: "iadd_words (Chars cs) (line_prefix g 1 # w # ws) = Chars cs2"
    using iadd_words_list by blast
  show ?thesis
  proof (cases "OUTPUT_LINE_NUMBERS g \<and> ch \<noteq> CHR ''(''")
    case True
    then show ?thesis
      using numbered unfolding emit_line_def w by (simp add: linenumber_first w)
  next
    case False
    then show ?thesis
      using plain unfolding emit_line_def w by (auto simp add: linenumber_first w)
  qed
qed

text \<open>
  With comments suppressed, every \<open>message\<close> command whose name is still in
  \<open>outstring\<close> ends in \<open>AttributeError\<close>, whatever the state and the host.
\<close>

lemma message_raises:
  assumes "Name c = ''message''"
      and "\<not> OUTPUT_COMMENTS g"
      and "\<not> (MODAL g \<and> lastcommand l = Some ''message'')"
      and "parse_params h g (currLocation l) c params [] = Inr ws"
  shows "generic_command h nextcommand c (l, g) = Inl AttributeError"
proof -
  have loop: "parse_params h g (currLocation l) c params [''message''] = Inr (''message'' # ws)"
    using assms(4) by (subst parse_params_append) simp
  have "finish_command c (''message'' # ws)
          (l\<lparr>lastcommand := Some ''message'', currLocation := currLocation l ++ Parameters c\<rparr>, g)
        = emit_line (''message'' # ws)
            (l\<lparr>lastcommand := Some ''message'', currLocation := currLocation l ++ Parameters c,
               out := Chars []\<rparr>, g)"
    using assms(1,2) by (simp add: finish_command_def)
  also have "\<dots> = Inl AttributeError"
    by (rule emit_line_list_raises) simp
  finally show ?thesis
    using assms(1,3) loop by (auto simp add: generic_command_unfold)
qed

text \<open>
  With comments on, the line of a \<open>message\<close> command is made of the words of its
  parameters, without the name.
\<close>

lemma message_words:
  assumes "Name c = ''message''"
      and "OUTPUT_COMMENTS g"
      and "\<not> (MODAL g \<and> lastcommand l = Some ''message'')"
      and "parse_params h g (currLocation l) c params [] = Inr ws"
  shows "generic_command h nextcommand c (l, g) =
           emit_line ws
             (l\<lparr>lastcommand := Some ''message'', currLocation := currLocation l ++ Parameters c\<rparr>, g)"
proof -
  have loop: "parse_params h g (currLocation l) c params [''message''] = Inr (''message'' # ws)"
    using assms(4) by (subst parse_params_append) simp
  show ?thesis
    using assms(1,2,3) loop by (auto simp add: generic_command_unfold finish_command_def)
qed

text \<open>
  C8. With comments suppressed, a \<open>message\<close> command makes \<open>out\<close> the empty list;
  the words of the line are then added to the list character by character, and
  \<open>out.strip()\<close> raises \<open>AttributeError\<close>. The export of the operation ends in that
  raise: nothing is discarded and restarted.
\<close>

theorem message_without_comments_raises:
  "export exact_host None [message_operation] ''-''
     (Parsed (default_args\<lparr>no_comments := True\<rparr>)) example_globals = Inl AttributeError"
  by (simp add: message_operation_def model_equations evaluation)

end
